theory Spec2Isabelle
  imports Complex_Main
begin

section \<open>Values of the Python runtime\<close>

text \<open>
  The backend (\<^verbatim>\<open>src/backend/main.py\<close>) computes with Python floats. A float is
  modelled as an exact real or one of the three special values; rounding error and
  overflow of finite arithmetic are not modelled. The special values are kept because the
  code meets them: \<^verbatim>\<open>norm.ppf\<close> is infinite at 0 and 1 and NaN outside, and
  \<^verbatim>\<open>inf * 0\<close> is NaN.
\<close>

datatype pyfloat = Fin real | PInf | NInf | NaN

fun fmul :: "pyfloat \<Rightarrow> pyfloat \<Rightarrow> pyfloat" where
  "fmul NaN y = NaN"
| "fmul x NaN = NaN"
| "fmul (Fin a) (Fin b) = Fin (a * b)"
| "fmul (Fin a) PInf = (if 0 < a then PInf else if a < 0 then NInf else NaN)"
| "fmul (Fin a) NInf = (if 0 < a then NInf else if a < 0 then PInf else NaN)"
| "fmul PInf (Fin b) = (if 0 < b then PInf else if b < 0 then NInf else NaN)"
| "fmul NInf (Fin b) = (if 0 < b then NInf else if b < 0 then PInf else NaN)"
| "fmul PInf PInf = PInf"
| "fmul PInf NInf = NInf"
| "fmul NInf PInf = NInf"
| "fmul NInf NInf = PInf"

text \<open>\<^verbatim>\<open>x > 0\<close> on floats: false for NaN.\<close>

fun fgt0 :: "pyfloat \<Rightarrow> bool" where
  "fgt0 (Fin a) = (0 < a)"
| "fgt0 PInf = True"
| "fgt0 NInf = False"
| "fgt0 NaN = False"

text \<open>\<^verbatim>\<open>x <= y\<close> on floats, used to say that a quantile function is monotone.\<close>

fun fle :: "pyfloat \<Rightarrow> pyfloat \<Rightarrow> bool" where
  "fle NaN y = False"
| "fle x NaN = False"
| "fle NInf y = True"
| "fle x PInf = True"
| "fle (Fin a) (Fin b) = (a \<le> b)"
| "fle x y = False"

fun isna :: "pyfloat \<Rightarrow> bool" where
  "isna NaN = True"
| "isna x = False"

datatype py_exception = ValueError | OverflowError | OtherError

text \<open>\<^verbatim>\<open>math.ceil\<close> raises on the special values; \<^verbatim>\<open>math.sqrt\<close> on a negative number.\<close>

fun math_ceil :: "pyfloat \<Rightarrow> py_exception + int" where
  "math_ceil (Fin a) = Inr \<lceil>a\<rceil>"
| "math_ceil NaN = Inl ValueError"
| "math_ceil x = Inl OverflowError"

definition math_sqrt :: "int \<Rightarrow> py_exception + real" where
  "math_sqrt n = (if n < 0 then Inl ValueError else Inr (sqrt (real_of_int n)))"

text \<open>\<^verbatim>\<open>int(x)\<close> truncates towards zero.\<close>

definition py_int :: "real \<Rightarrow> int" where
  "py_int x = (if 0 \<le> x then \<lfloor>x\<rfloor> else \<lceil>x\<rceil>)"

text \<open>Rounding to the nearest integer, ties to even, as numpy and \<^verbatim>\<open>round\<close> do.\<close>

definition round_half_even :: "real \<Rightarrow> real" where
  "round_half_even x =
     (let f = \<lfloor>x\<rfloor>; d = x - real_of_int f
      in real_of_int (if d < 1 / 2 then f else if 1 / 2 < d then f + 1
                      else if even f then f else f + 1))"

definition py_round2 :: "real \<Rightarrow> real" where
  "py_round2 x = round_half_even (x * 100) / 100"

section \<open>Errors\<close>

text \<open>
  An \<^verbatim>\<open>HTTPException\<close> carries its status code and its detail. The detail messages
  are f-strings; each is a constructor holding the values the message interpolates.
\<close>

datatype detail =
    Data_unavailable
  | Product_not_found string
  | No_valid_units_sold string
  | Insufficient_historical_data nat string int
  | Forecast_days_must_be_positive
  | Could_not_fit_exponential_smoothing int py_exception
  | Invalid_model_type string
  | Internal_forecasting_error string
  | Internal_optimization_error py_exception

datatype http_exception = HTTPException (status_code: nat) (detail: detail)

text \<open>What a \<^verbatim>\<open>try\<close> body can raise: a Python exception or an \<^verbatim>\<open>HTTPException\<close>.\<close>

datatype raised = PyExc py_exception | HttpExc http_exception

section \<open>The data frame\<close>

text \<open>
  The columns of the global data frame that the code reads. A date is a day number; a
  missing number (NaN after \<^verbatim>\<open>pd.to_numeric\<close>) is \<open>None\<close>.
\<close>

record row =
  row_product_id :: string
  row_date :: int
  units_sold :: "real option"
  inventory_level :: "real option"

type_synonym dataframe = "row list"

definition units :: "row \<Rightarrow> real" where
  "units r = (case units_sold r of Some u \<Rightarrow> u | None \<Rightarrow> 0)"

text \<open>
  \<^verbatim>\<open>set_index("Date")["Units Sold"].resample('D').sum()\<close>: one bin per calendar day
  from the first date to the last, each the sum of that day's values (0 for a day with
  no row).
\<close>

definition resample_daily_sum :: "dataframe \<Rightarrow> real list" where
  "resample_daily_sum rows =
     (if rows = [] then []
      else let ds = map row_date rows;
               lo = fold min ds (hd ds);
               hi = fold max ds (hd ds)
           in map (\<lambda>d. sum_list (map units (filter (\<lambda>r. row_date r = d) rows))) [lo..hi])"

definition get_product_data :: "dataframe \<Rightarrow> string \<Rightarrow> http_exception + (dataframe \<times> real list)" where
  "get_product_data df pid =
     (if df = [] then Inl (HTTPException 503 Data_unavailable)
      else let product_data = filter (\<lambda>r. row_product_id r = pid) df
           in if product_data = [] then Inl (HTTPException 404 (Product_not_found pid))
              else let product_data = filter (\<lambda>r. units_sold r \<noteq> None) product_data
                   in if product_data = [] then Inl (HTTPException 400 (No_valid_units_sold pid))
                      else Inr (product_data, resample_daily_sum product_data))"

section \<open>forecast\_demand\<close>

text \<open>
  The statsmodels calls are outside the repository. A fit either raises or yields a
  fitted model, which is the function from a step \<open>i\<close> (counted from 0) to the value
  projected for day \<open>i + 1\<close> after the series; \<^verbatim>\<open>forecast(steps=n)\<close> returns the
  first \<open>n\<close> of them. The two model classes are parameters of \<open>forecast_demand\<close>.
\<close>

datatype fit_outcome = Fitted "nat \<Rightarrow> real" | Raises py_exception

definition project :: "(nat \<Rightarrow> real) \<Rightarrow> int \<Rightarrow> real list" where
  "project model_fit steps = map model_fit [0..<nat steps]"

text \<open>\<^verbatim>\<open>forecast[forecast < 0] = 0; forecast.round().tolist()\<close>\<close>

definition clip_round :: "real list \<Rightarrow> real list" where
  "clip_round forecast = map (\<lambda>v. round_half_even (if v < 0 then 0 else v)) forecast"

text \<open>The body of the \<^verbatim>\<open>try\<close> block of \<open>forecast_demand\<close> (lines 105 to 123).\<close>

definition forecast_try ::
  "(real list \<Rightarrow> fit_outcome) \<Rightarrow> (real list \<Rightarrow> int \<Rightarrow> fit_outcome) \<Rightarrow>
   real list \<Rightarrow> string \<Rightarrow> int \<Rightarrow> int \<Rightarrow> raised + real list" where
  "forecast_try ARIMA ExponentialSmoothing ts_data model_type forecast_days seasonal_periods =
     (if model_type = ''ARIMA'' then
        (case ARIMA ts_data of
           Raises e \<Rightarrow> Inl (PyExc e)
         | Fitted model_fit \<Rightarrow> Inr (clip_round (project model_fit forecast_days)))
      else if model_type = ''ExponentialSmoothing'' then
        (case ExponentialSmoothing ts_data seasonal_periods of
           Raises ValueError \<Rightarrow>
             Inl (HttpExc (HTTPException 400
                    (Could_not_fit_exponential_smoothing seasonal_periods ValueError)))
         | Raises e \<Rightarrow> Inl (PyExc e)
         | Fitted model_fit \<Rightarrow> Inr (clip_round (project model_fit forecast_days)))
      else Inl (HttpExc (HTTPException 400 (Invalid_model_type model_type))))"

definition forecast_demand ::
  "(real list \<Rightarrow> fit_outcome) \<Rightarrow> (real list \<Rightarrow> int \<Rightarrow> fit_outcome) \<Rightarrow>
   real list \<Rightarrow> string \<Rightarrow> int \<Rightarrow> int \<Rightarrow> http_exception + real list" where
  "forecast_demand ARIMA ExponentialSmoothing ts_data model_type forecast_days seasonal_periods =
     (let min_data_points =
            max 10 (if model_type = ''ExponentialSmoothing'' then 2 * seasonal_periods else 10)
      in if int (length ts_data) < min_data_points then
           Inl (HTTPException 400
                  (Insufficient_historical_data (length ts_data) model_type min_data_points))
         else if forecast_days \<le> 0 then Inl (HTTPException 400 Forecast_days_must_be_positive)
         else (case forecast_try ARIMA ExponentialSmoothing ts_data model_type
                      forecast_days seasonal_periods of
                 Inr forecast \<Rightarrow> Inr forecast
               | Inl e \<Rightarrow> Inl (HTTPException 500 (Internal_forecasting_error model_type))))"

section \<open>calculate\_inventory\_optimization\<close>

definition ROLLING_WINDOW_DAYS :: nat where
  "ROLLING_WINDOW_DAYS = 90"

definition mean :: "real list \<Rightarrow> real" where
  "mean xs = sum_list xs / real (length xs)"

text \<open>
  The pandas standard deviation (one delta degree of freedom): NaN for fewer than two
  observations.
\<close>

definition pd_std :: "real list \<Rightarrow> pyfloat" where
  "pd_std xs =
     (if length xs < 2 then NaN
      else Fin (sqrt (sum_list (map (\<lambda>x. (x - mean xs)\<^sup>2) xs) / real (length xs - 1))))"

text \<open>
  Lines 143 to 154: the standard deviation of the daily demand and the name of the
  method that gave it. \<^verbatim>\<open>rolling(window=90).std().iloc[-1]\<close> is the deviation of the
  last 90 daily values.
\<close>

definition demand_variability :: "real list \<Rightarrow> pyfloat \<times> string" where
  "demand_variability daily_sales =
     (let (std_dev_demand, variability_method) =
            (if ROLLING_WINDOW_DAYS \<le> length daily_sales then
               (pd_std (drop (length daily_sales - ROLLING_WINDOW_DAYS) daily_sales),
                ''90-Day Rolling Std Dev'')
             else if 2 \<le> length daily_sales then
               (pd_std daily_sales, ''Overall Std Dev (Insufficient Rolling Data)'')
             else (Fin 0, ''N/A (Insufficient Data)''))
      in (if isna std_dev_demand then Fin 0 else std_dev_demand, variability_method))"

text \<open>Lines 159 and 160, given the z-score and the square root of the lead time.\<close>

definition safety_stock_of :: "pyfloat \<Rightarrow> real \<Rightarrow> pyfloat \<Rightarrow> py_exception + int" where
  "safety_stock_of z_score sqrt_lead_time std_dev_demand =
     (let safety_stock = fmul (fmul z_score (Fin sqrt_lead_time)) std_dev_demand
      in if fgt0 safety_stock then math_ceil safety_stock else Inr 0)"

text \<open>
  Lines 162 to 166, the sum taken exactly (\<open>ddlt_float\<close> below takes it in floats). The
  lead time is not negative here: the square root was taken.
\<close>

definition ddlt_of :: "real list \<Rightarrow> int \<Rightarrow> int" where
  "ddlt_of forecast_values lead_time_days =
     (let actual_lead_time_forecast_days = min (int (length forecast_values)) lead_time_days
      in \<lceil>sum_list (take (nat actual_lead_time_forecast_days) forecast_values)\<rceil>)"

text \<open>Lines 170 to 178, in exact arithmetic (\<open>annual_demand_float\<close> below rounds).\<close>

definition annual_demand_of :: "real list \<Rightarrow> real \<times> string" where
  "annual_demand_of forecast_values =
     (if 0 < length forecast_values then
        (let avg_forecasted_daily_demand = sum_list forecast_values / real (length forecast_values)
         in (avg_forecasted_daily_demand * 365, ''Forecasted Average''))
      else (0, ''N/A (Empty Forecast)''))"

text \<open>Lines 180 to 184, in exact arithmetic (\<open>eoq_float\<close> below rounds).\<close>

definition eoq_of :: "real \<Rightarrow> real \<Rightarrow> real \<Rightarrow> int" where
  "eoq_of annual_demand holding_cost_per_unit_per_year ordering_cost_per_order =
     (if annual_demand \<le> 0 \<or> holding_cost_per_unit_per_year \<le> 0 \<or> ordering_cost_per_order < 0
      then 0
      else \<lceil>sqrt ((2 * annual_demand * ordering_cost_per_order) / holding_cost_per_unit_per_year)\<rceil>)"

text \<open>Lines 187 to 197: the inventory level of the last row of the product's data.\<close>

definition current_inventory_of :: "dataframe \<Rightarrow> int" where
  "current_inventory_of product_hist_data =
     (if product_hist_data = [] then 0
      else (case inventory_level (last product_hist_data) of
              None \<Rightarrow> 0
            | Some v \<Rightarrow> py_int v))"

text \<open>
  Lines 199 to 208. The suggestion is an f-string: a constructor per message, holding
  the numbers the message shows.
\<close>

datatype suggestion =
    Maintain_current_stock
  | Order_units int int int
  | Maintain_review_eoq
  | Potential_overstock int int int

definition suggestion_of :: "int \<Rightarrow> int \<Rightarrow> int \<Rightarrow> int \<Rightarrow> suggestion" where
  "suggestion_of current_inventory reorder_point safety_stock eoq =
     (if current_inventory \<le> reorder_point then
        (let order_qty = (if 0 < eoq then eoq else reorder_point + safety_stock - current_inventory);
             order_qty = max 0 order_qty
         in if 0 < order_qty then Order_units order_qty current_inventory reorder_point
            else Maintain_review_eoq)
      else if reorder_point + (if 0 < eoq then eoq else safety_stock) < current_inventory then
        Potential_overstock current_inventory reorder_point safety_stock
      else Maintain_current_stock)"

record assumptions =
  lead_time_days :: int
  service_level_percent :: real
  holding_cost_per_unit_per_year :: real
  ordering_cost_per_order :: real
  demand_variability_method :: string
  annual_demand_method :: string

record policy =
  product_id :: string
  current_inventory :: int
  safety_stock :: int
  reorder_point :: int
  economic_order_quantity :: int
  demand_during_lead_time :: int
  suggestion :: suggestion
  assumptions_used :: assumptions

text \<open>
  The body of the \<^verbatim>\<open>try\<close> block after \<open>get_product_data\<close> (lines 141 to 226).
  \<^verbatim>\<open>norm.ppf\<close> of scipy is a parameter. The fields of the result keep the names of
  the source, so the variables are shortened: \<open>pid\<close>, \<open>ltd\<close>, \<open>hc\<close> and \<open>oc\<close> are
  \<^verbatim>\<open>product_id\<close>, \<^verbatim>\<open>lead_time_days\<close>, \<^verbatim>\<open>holding_cost_per_unit_per_year\<close> and
  \<^verbatim>\<open>ordering_cost_per_order\<close>; \<open>ss\<close>, \<open>rop\<close> and \<open>cur\<close> are \<^verbatim>\<open>safety_stock\<close>,
  \<^verbatim>\<open>reorder_point\<close> and \<^verbatim>\<open>current_inventory\<close>.
\<close>

definition optimization_try ::
  "(real \<Rightarrow> pyfloat) \<Rightarrow> dataframe \<Rightarrow> string \<Rightarrow> real list \<Rightarrow> int \<Rightarrow> real \<Rightarrow> real \<Rightarrow> real \<Rightarrow>
   py_exception + policy" where
  "optimization_try norm_ppf product_hist_data pid forecast_values ltd service_level hc oc =
     (let daily_sales = resample_daily_sum product_hist_data;
          (std_dev_demand, variability_method) = demand_variability daily_sales;
          z_score = norm_ppf service_level
      in case math_sqrt ltd of
           Inl e \<Rightarrow> Inl e
         | Inr sqrt_lead_time \<Rightarrow>
            (case safety_stock_of z_score sqrt_lead_time std_dev_demand of
               Inl e \<Rightarrow> Inl e
             | Inr ss \<Rightarrow>
                (let ddlt = ddlt_of forecast_values ltd;
                     rop = ddlt + ss;
                     (annual_demand, annual_method) = annual_demand_of forecast_values;
                     eoq = eoq_of annual_demand hc oc;
                     cur = current_inventory_of product_hist_data
                 in Inr \<lparr> product_id = pid,
                          current_inventory = cur,
                          safety_stock = ss,
                          reorder_point = rop,
                          economic_order_quantity = eoq,
                          demand_during_lead_time = ddlt,
                          suggestion = suggestion_of cur rop ss eoq,
                          assumptions_used =
                            \<lparr> lead_time_days = ltd,
                              service_level_percent = py_round2 (service_level * 100),
                              holding_cost_per_unit_per_year = hc,
                              ordering_cost_per_order = oc,
                              demand_variability_method = variability_method,
                              annual_demand_method = annual_method \<rparr> \<rparr>)))"

text \<open>
  An \<^verbatim>\<open>HTTPException\<close> of \<open>get_product_data\<close> is raised again as it is; any other
  exception becomes a 500.
\<close>

definition calculate_inventory_optimization ::
  "dataframe \<Rightarrow> (real \<Rightarrow> pyfloat) \<Rightarrow> string \<Rightarrow> real list \<Rightarrow> int \<Rightarrow> real \<Rightarrow> real \<Rightarrow> real \<Rightarrow>
   http_exception + policy" where
  "calculate_inventory_optimization df norm_ppf pid forecast_values ltd service_level hc oc =
     (case get_product_data df pid of
        Inl http_exc \<Rightarrow> Inl http_exc
      | Inr (product_hist_data, ts_data) \<Rightarrow>
         (case optimization_try norm_ppf product_hist_data pid forecast_values ltd
                 service_level hc oc of
            Inl e \<Rightarrow> Inl (HTTPException 500 (Internal_optimization_error e))
          | Inr result \<Rightarrow> Inr result))"

section \<open>The arithmetic of lines 165 to 184 in floats\<close>

text \<open>
  The definitions above take sums, quotients and square roots exactly. The program
  takes them in floats: every finite operation returns the rounded exact result, which
  can also overflow to an infinity, and \<^verbatim>\<open>sum\<close> adds a list of floats by an algorithm
  that depends on the interpreter. Where a claim is about the numbers that
  \<^verbatim>\<open>math.ceil\<close> receives, the rounding and the summation are parameters: any rounding
  function and any summation can stand for the machine's.
\<close>

record arith =
  round_to_float :: "real \<Rightarrow> pyfloat"
  float_sum :: "real list \<Rightarrow> pyfloat"

text \<open>The arithmetic that does not round: the one of the definitions above.\<close>

definition exact :: arith where
  "exact = \<lparr> round_to_float = Fin, float_sum = (\<lambda>xs. Fin (sum_list xs)) \<rparr>"

text \<open>\<^verbatim>\<open>sum(xs)\<close>: the integer 0 for the empty list.\<close>

definition py_sum :: "arith \<Rightarrow> real list \<Rightarrow> pyfloat" where
  "py_sum ar xs = (if xs = [] then Fin 0 else float_sum ar xs)"

text \<open>
  Float multiplication: two finite factors give the rounded product, the special values
  follow the rules of \<open>fmul\<close>.
\<close>

fun fl_mul :: "arith \<Rightarrow> pyfloat \<Rightarrow> pyfloat \<Rightarrow> pyfloat" where
  "fl_mul ar (Fin a) (Fin b) = round_to_float ar (a * b)"
| "fl_mul ar x y = fmul x y"

text \<open>
  Float division by a finite number. Both divisions of the code have a positive
  divisor: the length of a non-empty forecast, and the holding cost after the test
  \<^verbatim>\<open>holding_cost_per_unit_per_year <= 0\<close>.
\<close>

fun fl_div :: "arith \<Rightarrow> pyfloat \<Rightarrow> real \<Rightarrow> pyfloat" where
  "fl_div ar (Fin a) b = round_to_float ar (a / b)"
| "fl_div ar PInf b = (if 0 < b then PInf else NInf)"
| "fl_div ar NInf b = (if 0 < b then NInf else PInf)"
| "fl_div ar NaN b = NaN"

text \<open>\<^verbatim>\<open>math.sqrt\<close> on a float: it raises on a negative number, keeps NaN and infinity.\<close>

fun fl_sqrt :: "arith \<Rightarrow> pyfloat \<Rightarrow> py_exception + pyfloat" where
  "fl_sqrt ar (Fin a) = (if a < 0 then Inl ValueError else Inr (round_to_float ar (sqrt a)))"
| "fl_sqrt ar PInf = Inr PInf"
| "fl_sqrt ar NInf = Inl ValueError"
| "fl_sqrt ar NaN = Inr NaN"

text \<open>\<^verbatim>\<open>x <= 0\<close> on floats: false for NaN.\<close>

fun fle0 :: "pyfloat \<Rightarrow> bool" where
  "fle0 (Fin a) = (a \<le> 0)"
| "fle0 NInf = True"
| "fle0 PInf = False"
| "fle0 NaN = False"

text \<open>Lines 162 to 166: \<^verbatim>\<open>math.ceil\<close> of the float sum, which raises when the sum overflowed.\<close>

definition ddlt_float :: "arith \<Rightarrow> real list \<Rightarrow> int \<Rightarrow> py_exception + int" where
  "ddlt_float ar forecast_values ltd =
     (let actual_lead_time_forecast_days = min (int (length forecast_values)) ltd
      in math_ceil (py_sum ar (take (nat actual_lead_time_forecast_days) forecast_values)))"

text \<open>Lines 170 to 178.\<close>

definition annual_demand_float :: "arith \<Rightarrow> real list \<Rightarrow> pyfloat \<times> string" where
  "annual_demand_float ar forecast_values =
     (if 0 < length forecast_values then
        (let avg_forecasted_daily_demand =
               fl_div ar (py_sum ar forecast_values) (real (length forecast_values))
         in (fl_mul ar avg_forecasted_daily_demand (Fin 365), ''Forecasted Average''))
      else (Fin 0, ''N/A (Empty Forecast)''))"

text \<open>Lines 180 to 184: \<^verbatim>\<open>(2 * annual_demand * ordering_cost_per_order) / holding_cost_per_unit_per_year\<close>.\<close>

definition eoq_float :: "arith \<Rightarrow> pyfloat \<Rightarrow> real \<Rightarrow> real \<Rightarrow> py_exception + int" where
  "eoq_float ar annual_demand hc oc =
     (if fle0 annual_demand \<or> hc \<le> 0 \<or> oc < 0 then Inr 0
      else (case fl_sqrt ar (fl_div ar (fl_mul ar (fl_mul ar (Fin 2) annual_demand) (Fin oc)) hc) of
              Inl e \<Rightarrow> Inl e
            | Inr eoq_raw \<Rightarrow> math_ceil eoq_raw))"

text \<open>
  The body of the \<^verbatim>\<open>try\<close> block with this arithmetic, each step in the order of the
  source, so that the first step that raises ends the call.
\<close>

definition optimization_try_float ::
  "arith \<Rightarrow> (real \<Rightarrow> pyfloat) \<Rightarrow> dataframe \<Rightarrow> string \<Rightarrow> real list \<Rightarrow> int \<Rightarrow> real \<Rightarrow> real \<Rightarrow> real \<Rightarrow>
   py_exception + policy" where
  "optimization_try_float ar norm_ppf product_hist_data pid forecast_values ltd service_level hc oc =
     (let daily_sales = resample_daily_sum product_hist_data;
          (std_dev_demand, variability_method) = demand_variability daily_sales;
          z_score = norm_ppf service_level
      in case math_sqrt ltd of
           Inl e \<Rightarrow> Inl e
         | Inr sqrt_lead_time \<Rightarrow>
            (case safety_stock_of z_score sqrt_lead_time std_dev_demand of
               Inl e \<Rightarrow> Inl e
             | Inr ss \<Rightarrow>
                (case ddlt_float ar forecast_values ltd of
                   Inl e \<Rightarrow> Inl e
                 | Inr ddlt \<Rightarrow>
                    (let rop = ddlt + ss;
                         (annual_demand, annual_method) = annual_demand_float ar forecast_values
                     in case eoq_float ar annual_demand hc oc of
                          Inl e \<Rightarrow> Inl e
                        | Inr eoq \<Rightarrow>
                           (let cur = current_inventory_of product_hist_data
                            in Inr \<lparr> product_id = pid,
                                     current_inventory = cur,
                                     safety_stock = ss,
                                     reorder_point = rop,
                                     economic_order_quantity = eoq,
                                     demand_during_lead_time = ddlt,
                                     suggestion = suggestion_of cur rop ss eoq,
                                     assumptions_used =
                                       \<lparr> lead_time_days = ltd,
                                         service_level_percent = py_round2 (service_level * 100),
                                         holding_cost_per_unit_per_year = hc,
                                         ordering_cost_per_order = oc,
                                         demand_variability_method = variability_method,
                                         annual_demand_method = annual_method \<rparr> \<rparr>)))))"

definition calculate_inventory_optimization_float ::
  "arith \<Rightarrow> dataframe \<Rightarrow> (real \<Rightarrow> pyfloat) \<Rightarrow> string \<Rightarrow> real list \<Rightarrow> int \<Rightarrow> real \<Rightarrow> real \<Rightarrow> real \<Rightarrow>
   http_exception + policy" where
  "calculate_inventory_optimization_float ar df norm_ppf pid forecast_values ltd service_level hc oc =
     (case get_product_data df pid of
        Inl http_exc \<Rightarrow> Inl http_exc
      | Inr (product_hist_data, ts_data) \<Rightarrow>
         (case optimization_try_float ar norm_ppf product_hist_data pid forecast_values ltd
                 service_level hc oc of
            Inl e \<Rightarrow> Inl (HTTPException 500 (Internal_optimization_error e))
          | Inr result \<Rightarrow> Inr result))"

section \<open>The arithmetic of the machine\<close>

text \<open>
  Rounding to the nearest double, ties to even: a number other than 0 lies in a binade
  \<open>2 ^ e \<le> \<bar>x\<bar> < 2 ^ (e + 1)\<close>, whose doubles are the multiples of \<open>2 ^ (e - 52)\<close> (below
  \<open>2 ^ - 1022\<close> the multiples of \<open>2 ^ - 1074\<close>); a result of \<open>2 ^ 1024\<close> or more is an
  infinity.
\<close>

definition binary64 :: "real \<Rightarrow> pyfloat" where
  "binary64 x =
     (if x = 0 then Fin 0
      else let e = max \<lfloor>log 2 \<bar>x\<bar>\<rfloor> (- 1022);
               ulp = 2 powr (real_of_int e - 52);
               r = round_half_even (x / ulp) * ulp
           in if 2 ^ 1024 \<le> \<bar>r\<bar> then (if 0 < x then PInf else NInf) else Fin r)"

text \<open>
  \<^verbatim>\<open>sum\<close> from left to right, every partial sum rounded (the interpreter before 3.12;
  later ones compensate the rounding errors). An infinite partial sum stays what it is,
  the summands being finite.
\<close>

definition naive_sum :: "real list \<Rightarrow> pyfloat" where
  "naive_sum xs =
     foldl (\<lambda>acc x. case acc of Fin a \<Rightarrow> binary64 (a + x) | special \<Rightarrow> special) (Fin 0) xs"

definition binary64_arith :: arith where
  "binary64_arith = \<lparr> round_to_float = binary64, float_sum = naive_sum \<rparr>"

section \<open>Sample inputs\<close>

text \<open>
  Concrete inputs for the examples below. \<open>daily_rows pid us iv\<close> is the data of one
  product with one row per consecutive day, starting at day 0, selling \<open>us ! i\<close> units on
  day \<open>i\<close>, every row with the inventory level \<open>iv\<close>.
\<close>

definition daily_rows :: "string \<Rightarrow> real list \<Rightarrow> real option \<Rightarrow> dataframe" where
  "daily_rows pid us iv =
     map (\<lambda>i. \<lparr> row_product_id = pid, row_date = int i, units_sold = Some (us ! i),
               inventory_level = iv \<rparr>) [0..<length us]"

text \<open>
  A stand-in for \<^verbatim>\<open>norm.ppf\<close> in closed examples: it has the special values of the
  quantile function (NaN outside the unit interval, infinite at its ends), is increasing
  in between, is 0 at 1/2 and 1.645 at 0.95 (scipy gives 1.6448...).
\<close>

definition ppf_sample :: "real \<Rightarrow> pyfloat" where
  "ppf_sample q =
     (if q < 0 \<or> 1 < q then NaN else if q = 0 then NInf else if q = 1 then PInf
      else Fin ((q - 1 / 2) * (329 / 90)))"

text \<open>
  Two outcomes of a fit: a model whose projections start below zero and rise by one a
  day, and a fit that raises \<^verbatim>\<open>ValueError\<close>.
\<close>

definition ramp_fit :: "real list \<Rightarrow> fit_outcome" where
  "ramp_fit ts_data = Fitted (\<lambda>i. real i - 3 / 2)"

definition failing_fit :: "real list \<Rightarrow> int \<Rightarrow> fit_outcome" where
  "failing_fit ts_data seasonal_periods = Raises ValueError"

text \<open>Whether a suggestion is the overstock warning of line 208.\<close>

fun overstock_warning :: "suggestion \<Rightarrow> bool" where
  "overstock_warning (Potential_overstock c r s) = True"
| "overstock_warning x = False"

section \<open>Properties\<close>


subsection \<open>The sample data frame\<close>

text \<open>The daily series of \<open>daily_rows pid us iv\<close> is \<open>us\<close>, and the product is found.\<close>

lemma fold_min_least: "\<forall>x \<in> set xs. (m::int) \<le> x \<Longrightarrow> fold min xs m = m"
  by (induction xs) (auto simp: min_def)

lemma fold_max_upt: "- 1 \<le> m \<Longrightarrow> fold max (map int [0..<n]) (m::int) = max m (int n - 1)"
  by (induction n) auto

lemma upto_map_int: "[0..int n - 1] = map int [0..<n]"
proof (induction n)
  case 0
  then show ?case by simp
next
  case (Suc n)
  have "[0..int (Suc n) - 1] = [0..int n - 1] @ [int n]"
    using upto_rec2 [of 0 "int n"] by simp
  with Suc show ?case by simp
qed

lemma filter_upt_eq: "j < n \<Longrightarrow> filter (\<lambda>i. i = j) [0..<n] = [j]"
  by (induction n) auto

lemma resample_daily_rows: "resample_daily_sum (daily_rows pid us iv) = us"
proof (cases "us = []")
  case True
  then show ?thesis by (simp add: resample_daily_sum_def daily_rows_def)
next
  case False
  let ?n = "length us"
  let ?rows = "daily_rows pid us iv"
  have n: "0 < ?n" using False by simp
  have ne: "?rows \<noteq> []" using False by (simp add: daily_rows_def)
  have ds: "map row_date ?rows = map int [0..<?n]"
    by (simp add: daily_rows_def comp_def)
  have hd0: "hd (map int [0..<?n]) = 0"
    using n by (simp add: hd_map upt_rec [of 0])
  have lo: "fold min (map int [0..<?n]) 0 = 0"
    by (rule fold_min_least) auto
  have hi: "fold max (map int [0..<?n]) 0 = int ?n - 1"
    using n by (simp add: fold_max_upt)
  have day: "sum_list (map units (filter (\<lambda>r. row_date r = int j) ?rows)) = us ! j"
    if "j < ?n" for j
  proof -
    have "filter (\<lambda>r. row_date r = int j) ?rows =
          map (\<lambda>i. \<lparr> row_product_id = pid, row_date = int i, units_sold = Some (us ! i),
                     inventory_level = iv \<rparr>) (filter (\<lambda>i. i = j) [0..<?n])"
      by (simp add: daily_rows_def filter_map comp_def)
    then show ?thesis using that by (simp add: filter_upt_eq units_def)
  qed
  have "resample_daily_sum ?rows =
        map (\<lambda>d. sum_list (map units (filter (\<lambda>r. row_date r = d) ?rows))) (map int [0..<?n])"
    using ne by (simp add: resample_daily_sum_def Let_def ds hd0 lo hi upto_map_int)
  also have "\<dots> = map (\<lambda>j. us ! j) [0..<?n]"
    by (simp add: comp_def day)
  also have "\<dots> = us" by (rule map_nth)
  finally show ?thesis .
qed

lemma get_product_data_daily_rows:
  assumes "us \<noteq> []"
  shows "get_product_data (daily_rows pid us iv) pid = Inr (daily_rows pid us iv, us)"
proof -
  have ne: "daily_rows pid us iv \<noteq> []" using assms by (simp add: daily_rows_def)
  have f1: "filter (\<lambda>r. row_product_id r = pid) (daily_rows pid us iv) = daily_rows pid us iv"
    by (simp add: daily_rows_def filter_map comp_def)
  have f2: "filter (\<lambda>r. units_sold r \<noteq> None) (daily_rows pid us iv) = daily_rows pid us iv"
    by (simp add: daily_rows_def filter_map comp_def)
  show ?thesis
    unfolding get_product_data_def Let_def f1 f2 using ne by (simp add: resample_daily_rows)
qed

lemma last_daily_rows:
  "us \<noteq> [] \<Longrightarrow> inventory_level (last (daily_rows pid us iv)) = iv"
  by (simp add: daily_rows_def last_map)


subsection \<open>What a returned policy holds\<close>

text \<open>
  A returned policy fixes every step of the computation: the lead time is not negative,
  the safety stock computation returned, and each field is the value of its block.
\<close>

lemma optimization_try_InrD:
  assumes "optimization_try norm_ppf phd pid fv ltd sl hc oc = Inr p"
  shows "0 \<le> ltd \<and>
     safety_stock_of (norm_ppf sl) (sqrt (real_of_int ltd))
        (fst (demand_variability (resample_daily_sum phd))) = Inr (safety_stock p) \<and>
     demand_during_lead_time p = ddlt_of fv ltd \<and>
     reorder_point p = ddlt_of fv ltd + safety_stock p \<and>
     economic_order_quantity p = eoq_of (fst (annual_demand_of fv)) hc oc \<and>
     current_inventory p = current_inventory_of phd \<and>
     suggestion p = suggestion_of (current_inventory p) (reorder_point p) (safety_stock p)
                      (economic_order_quantity p) \<and>
     demand_variability_method (assumptions_used p) =
        snd (demand_variability (resample_daily_sum phd))"
  using assms
  by (auto simp: optimization_try_def math_sqrt_def Let_def split: prod.splits sum.splits if_splits)

lemma optimization_try_succeeds:
  assumes "0 \<le> ltd"
    and "safety_stock_of (norm_ppf sl) (sqrt (real_of_int ltd))
           (fst (demand_variability (resample_daily_sum phd))) = Inr ss"
  shows "\<exists>p. optimization_try norm_ppf phd pid fv ltd sl hc oc = Inr p \<and> safety_stock p = ss"
  using assms
  by (auto simp: optimization_try_def math_sqrt_def Let_def split: prod.splits sum.splits)

lemma get_product_data_InrD:
  assumes "get_product_data df pid = Inr (phd, ts)"
  shows "phd \<noteq> [] \<and> ts = resample_daily_sum phd"
  using assms by (auto simp: get_product_data_def Let_def split: if_splits)

lemma calculate_InrD:
  assumes "calculate_inventory_optimization df norm_ppf pid fv ltd sl hc oc = Inr p"
  shows "\<exists>phd. get_product_data df pid = Inr (phd, resample_daily_sum phd) \<and>
           optimization_try norm_ppf phd pid fv ltd sl hc oc = Inr p"
proof (cases "get_product_data df pid")
  case (Inl e)
  then show ?thesis using assms by (simp add: calculate_inventory_optimization_def)
next
  case (Inr r)
  obtain phd ts where r: "r = (phd, ts)" by (cases r)
  with Inr get_product_data_InrD have "ts = resample_daily_sum phd" by blast
  with Inr r assms show ?thesis
    by (auto simp: calculate_inventory_optimization_def split: sum.splits)
qed

lemma safety_stock_of_nonneg:
  assumes "safety_stock_of z s sd = Inr ss"
  shows "0 \<le> ss"
proof (cases "fgt0 (fmul (fmul z (Fin s)) sd)")
  case True
  then show ?thesis using assms
    by (cases "fmul (fmul z (Fin s)) sd") (auto simp: safety_stock_of_def Let_def)
next
  case False
  then show ?thesis using assms by (simp add: safety_stock_of_def Let_def)
qed

lemma safety_stock_of_zero_std: "safety_stock_of z s (Fin 0) = Inr 0"
  by (cases z) (auto simp: safety_stock_of_def Let_def)


text \<open>The facts that evaluate a call on a sample data frame.\<close>

lemma calculate_daily_rows:
  assumes "us \<noteq> []"
  shows "calculate_inventory_optimization (daily_rows pid us iv) norm_ppf pid fv ltd sl hc oc =
     (case optimization_try norm_ppf (daily_rows pid us iv) pid fv ltd sl hc oc of
        Inl e \<Rightarrow> Inl (HTTPException 500 (Internal_optimization_error e))
      | Inr result \<Rightarrow> Inr result)"
  by (simp add: calculate_inventory_optimization_def get_product_data_daily_rows [OF assms])

lemma current_inventory_daily_rows:
  "us \<noteq> [] \<Longrightarrow> current_inventory_of (daily_rows pid us iv) =
     (case iv of None \<Rightarrow> 0 | Some v \<Rightarrow> py_int v)"
  by (simp add: current_inventory_of_def last_daily_rows) (simp add: daily_rows_def)

lemmas eval_defs = calculate_daily_rows optimization_try_def resample_daily_rows
  current_inventory_daily_rows demand_variability_def ROLLING_WINDOW_DAYS_def
  pd_std_def mean_def power2_eq_square math_sqrt_def safety_stock_of_def ddlt_of_def
  annual_demand_of_def eoq_of_def suggestion_of_def py_int_def
  py_round2_def round_half_even_def ppf_sample_def


subsection \<open>Signs and one square root\<close>

lemma ceiling_nonneg: "0 \<le> (x::real) \<Longrightarrow> 0 \<le> \<lceil>x\<rceil>"
  by simp

lemma eoq_of_nonneg: "0 \<le> eoq_of a hc oc"
proof (cases "a \<le> 0 \<or> hc \<le> 0 \<or> oc < 0")
  case True
  then show ?thesis by (simp add: eoq_of_def)
next
  case False
  then have "0 \<le> 2 * a * oc / hc" by simp
  then have "0 \<le> sqrt (2 * a * oc / hc)" by simp
  then have "0 \<le> \<lceil>sqrt (2 * a * oc / hc)\<rceil>" by (rule ceiling_nonneg)
  with False show ?thesis by (simp add: eoq_of_def)
qed

lemma eoq_of_scenario: "eoq_of 3650 (3 / 2) 50 = 494"
proof -
  have "(2 * 3650 * 50) / (3 / 2) = (730000 / 3 :: real)" by simp
  moreover have "\<lceil>sqrt (730000 / 3 :: real)\<rceil> = 494"
  proof (rule ceiling_unique)
    have "(493 :: real)\<^sup>2 < 730000 / 3" by (simp add: power2_eq_square)
    then have "493 < sqrt (730000 / 3 :: real)" by (rule real_less_rsqrt)
    then show "real_of_int 494 - 1 < sqrt (730000 / 3)" by simp
    have "(730000 / 3 :: real) \<le> 494\<^sup>2" by (simp add: power2_eq_square)
    then have "sqrt (730000 / 3 :: real) \<le> 494" by (intro real_le_lsqrt) simp_all
    then show "sqrt (730000 / 3) \<le> real_of_int 494" by simp
  qed
  ultimately show ?thesis by (simp add: eoq_of_def)
qed

lemma ddlt_of_nonneg:
  assumes "\<forall>v \<in> set fv. 0 \<le> v"
  shows "0 \<le> ddlt_of fv ltd"
proof -
  have "\<forall>v \<in> set (take n fv). 0 \<le> v" for n
    using assms by (auto dest: in_set_takeD)
  then have "0 \<le> sum_list (take n fv)" for n
    by (simp add: sum_list_nonneg)
  then show ?thesis unfolding ddlt_of_def Let_def by (intro ceiling_nonneg)
qed

lemma py_int_nonneg_iff: "0 \<le> py_int v \<longleftrightarrow> - 1 < v"
  by (auto simp: py_int_def)

subsection \<open>The exact arithmetic is an instance of the float arithmetic\<close>

lemma py_sum_exact: "py_sum exact xs = Fin (sum_list xs)"
  by (simp add: py_sum_def exact_def)

lemma ddlt_float_exact: "ddlt_float exact fv ltd = Inr (ddlt_of fv ltd)"
  by (simp add: ddlt_float_def ddlt_of_def py_sum_exact Let_def)

lemma annual_demand_float_exact:
  "annual_demand_float exact fv = (Fin (fst (annual_demand_of fv)), snd (annual_demand_of fv))"
  by (simp add: annual_demand_float_def annual_demand_of_def py_sum_exact Let_def)
     (simp add: exact_def)

lemma eoq_float_exact: "eoq_float exact (Fin a) hc oc = Inr (eoq_of a hc oc)"
proof (cases "a \<le> 0 \<or> hc \<le> 0 \<or> oc < 0")
  case True
  then show ?thesis by (auto simp: eoq_float_def eoq_of_def)
next
  case False
  then have "\<not> 2 * a * oc / hc < 0" by (simp add: not_less)
  with False show ?thesis
    by (simp add: eoq_float_def eoq_of_def exact_def)
qed

lemma optimization_try_float_exact:
  "optimization_try_float exact norm_ppf phd pid fv ltd sl hc oc =
   optimization_try norm_ppf phd pid fv ltd sl hc oc"
  by (simp add: optimization_try_float_def optimization_try_def ddlt_float_exact
      annual_demand_float_exact eoq_float_exact Let_def
      split: prod.splits sum.splits)

lemma calculate_inventory_optimization_float_exact:
  "calculate_inventory_optimization_float exact df norm_ppf pid fv ltd sl hc oc =
   calculate_inventory_optimization df norm_ppf pid fv ltd sl hc oc"
  by (simp add: calculate_inventory_optimization_float_def calculate_inventory_optimization_def
      optimization_try_float_exact split: sum.splits prod.splits)

subsection \<open>What a policy returned under float arithmetic holds\<close>

lemma optimization_try_float_InrD:
  assumes "optimization_try_float ar norm_ppf phd pid fv ltd sl hc oc = Inr p"
  shows "0 \<le> ltd \<and>
     ddlt_float ar fv ltd = Inr (demand_during_lead_time p) \<and>
     eoq_float ar (fst (annual_demand_float ar fv)) hc oc = Inr (economic_order_quantity p)"
  using assms
  by (auto simp: optimization_try_float_def math_sqrt_def Let_def
      split: prod.splits sum.splits if_splits)

lemma calculate_float_InrD:
  assumes "calculate_inventory_optimization_float ar df norm_ppf pid fv ltd sl hc oc = Inr p"
  shows "\<exists>phd. optimization_try_float ar norm_ppf phd pid fv ltd sl hc oc = Inr p"
  using assms
  by (auto simp: calculate_inventory_optimization_float_def split: sum.splits prod.splits)

lemma math_ceil_InrD: "math_ceil x = Inr n \<Longrightarrow> \<exists>r. x = Fin r \<and> n = \<lceil>r\<rceil>"
  by (cases x) auto

text \<open>A NaN annual demand cannot give a policy: it reaches \<^verbatim>\<open>math.ceil\<close> as NaN.\<close>

lemma eoq_float_NaN: "0 < hc \<Longrightarrow> 0 \<le> oc \<Longrightarrow> eoq_float ar NaN hc oc = Inl ValueError"
  by (simp add: eoq_float_def not_le not_less)

subsection \<open>Rounding to the nearest double\<close>

text \<open>
  The value of \<open>binary64\<close> in a binade, and with it the arithmetic of the machine at two
  inputs where it parts from the exact one: the forecast 6, 5, 5, 5, 5, 5, 5 with a
  holding cost of 730 and an ordering cost of 7, where the quotient under the root is
  one unit in the last place above 36, and the sum of \<open>2 ^ 53\<close> and 1.
\<close>

lemma round_half_even_of_int: "round_half_even (real_of_int n) = real_of_int n"
  by (simp add: round_half_even_def)

lemma round_half_even_unique:
  assumes "real_of_int m - 1 / 2 < x" and "x < real_of_int m + 1 / 2"
  shows "round_half_even x = real_of_int m"
proof -
  have "\<lfloor>x\<rfloor> = m \<or> \<lfloor>x\<rfloor> = m - 1" using assms by linarith
  then show ?thesis
  proof
    assume f: "\<lfloor>x\<rfloor> = m"
    then have "x - real_of_int m < 1 / 2" using assms by simp
    with f show ?thesis by (simp add: round_half_even_def)
  next
    assume f: "\<lfloor>x\<rfloor> = m - 1"
    then have "1 / 2 < x - real_of_int (m - 1)" using assms by simp
    with f show ?thesis by (simp add: round_half_even_def)
  qed
qed

lemma round_half_even_bounds:
  assumes "0 \<le> y" and "y \<le> real_of_int n"
  shows "0 \<le> round_half_even y \<and> round_half_even y \<le> real_of_int n"
proof -
  have f0: "0 \<le> \<lfloor>y\<rfloor>" using assms(1) by simp
  have fn: "\<lfloor>y\<rfloor> \<le> n" using assms(2) by linarith
  have up: "\<lfloor>y\<rfloor> + 1 \<le> n" if "y \<noteq> real_of_int \<lfloor>y\<rfloor>"
    using that assms(2) by linarith
  show ?thesis
    unfolding round_half_even_def Let_def using f0 fn up
    by (auto simp del: of_int_add)
qed

lemma binary64_normal:
  assumes "2 ^ k \<le> x" and "x < 2 ^ Suc k" and "k \<le> 1000"
  shows "binary64 x = Fin (round_half_even (x * 2 ^ 52 / 2 ^ k) * 2 ^ k / 2 ^ 52)"
proof -
  define u :: real where "u = 2 ^ k / 2 ^ 52"
  have u: "0 < u" by (simp add: u_def)
  have pos: "0 < x" using assms(1) by (meson less_le_trans zero_less_numeral zero_less_power)
  have "(2::real) powr real_of_int (int k) \<le> x \<and> x < 2 powr real_of_int (int k + 1)"
    using assms(1,2) by (simp add: powr_realpow add.commute powr_add)
  then have e: "\<lfloor>log 2 x\<rfloor> = int k"
    using floor_log_eq_powr_iff [of x 2 "int k"] pos by simp
  have ulp: "2 powr (real k - 52) = u"
    by (simp add: u_def powr_diff powr_realpow)
  have "x / u < 2 ^ 53"
  proof -
    have "x / u < 2 ^ Suc k / u"
      using assms(2) u by (rule divide_strict_right_mono)
    also have "\<dots> = 2 ^ 53" by (simp add: u_def)
    finally show ?thesis .
  qed
  then have "x / u \<le> real_of_int (2 ^ 53)" by simp
  moreover have "0 \<le> x / u" using pos u by simp
  ultimately have b: "0 \<le> round_half_even (x / u)" "round_half_even (x / u) \<le> real_of_int (2 ^ 53)"
    using round_half_even_bounds by blast+
  have "round_half_even (x / u) * u \<le> 2 ^ 53 * u"
    using b(2) u by simp
  also have "\<dots> = 2 ^ Suc k" by (simp add: u_def)
  also have "\<dots> \<le> (2::real) ^ 1001" using assms(3) by (intro power_increasing) simp_all
  also have "\<dots> < (2::real) ^ 1024" by (intro power_strict_increasing) simp_all
  finally have hi: "round_half_even (x / u) * u < 2 ^ 1024" .
  have lo: "0 \<le> round_half_even (x / u) * u" using b(1) u by simp
  have "binary64 x = Fin (round_half_even (x / u) * u)"
    using pos lo hi by (simp add: binary64_def e ulp Let_def)
  also have "round_half_even (x / u) * u = round_half_even (x * 2 ^ 52 / 2 ^ k) * 2 ^ k / 2 ^ 52"
    by (simp add: u_def)
  finally show ?thesis .
qed


lemmas binary64_small = binary64_normal [of 2] binary64_normal [of 3] binary64_normal [of 4]
  binary64_normal [of 5]

lemma naive_sum_example: "naive_sum [6, 5, 5, 5, 5, 5, 5] = Fin 36"
  by (simp add: naive_sum_def binary64_small round_half_even_def)

lemma naive_sum_example_4: "naive_sum [6, 5, 5, 5] = Fin 21"
  by (simp add: naive_sum_def binary64_small round_half_even_def)

lemma annual_demand_example:
  "annual_demand_float binary64_arith [6, 5, 5, 5, 5, 5, 5] =
     (Fin (4127880796850469 / 2199023255552), ''Forecasted Average'')"
  by (simp add: annual_demand_float_def py_sum_def binary64_arith_def naive_sum_example
      binary64_normal [of 2] binary64_normal [of 10] round_half_even_def)

lemma sqrt_example:
  "binary64 (sqrt (5066549580791809 / 140737488355328)) =
     Fin (6755399441055745 / 1125899906842624)"
proof -
  let ?q = "5066549580791809 / 140737488355328 :: real"
  have lo: "2 ^ 2 \<le> sqrt ?q" by (rule real_le_rsqrt) simp
  have hi: "sqrt ?q < 2 ^ Suc 2" by (rule real_less_lsqrt) simp_all
  have "round_half_even (sqrt ?q * 2 ^ 52 / 2 ^ 2) = real_of_int 6755399441055745"
  proof (rule round_half_even_unique)
    have "((13510798882111489 / 2251799813685248 :: real))\<^sup>2 < ?q"
      by (simp add: power2_eq_square)
    then have "13510798882111489 / 2251799813685248 < sqrt ?q" by (rule real_less_rsqrt)
    then show "real_of_int 6755399441055745 - 1 / 2 < sqrt ?q * 2 ^ 52 / 2 ^ 2" by simp
    have "?q < ((13510798882111491 / 2251799813685248 :: real))\<^sup>2"
      by (simp add: power2_eq_square)
    then have "sqrt ?q < 13510798882111491 / 2251799813685248"
      by (intro real_less_lsqrt) simp_all
    then show "sqrt ?q * 2 ^ 52 / 2 ^ 2 < real_of_int 6755399441055745 + 1 / 2" by simp
  qed
  with binary64_normal [OF lo hi] show ?thesis by simp
qed

lemma eoq_example:
  "eoq_float binary64_arith (Fin (4127880796850469 / 2199023255552)) 730 7 = Inr 7"
  by (simp add: eoq_float_def binary64_arith_def sqrt_example
      binary64_normal [of 11] binary64_normal [of 14] binary64_normal [of 5] round_half_even_def)

lemma ddlt_example: "ddlt_float binary64_arith [6, 5, 5, 5, 5, 5, 5] 4 = Inr 21"
  by (simp add: ddlt_float_def py_sum_def binary64_arith_def naive_sum_example_4)

lemma naive_sum_2_53: "naive_sum [9007199254740992, 1] = Fin 9007199254740992"
  by (simp add: naive_sum_def binary64_normal [of 53] round_half_even_def)

lemma calculate_float_daily_rows:
  assumes "us \<noteq> []"
  shows "calculate_inventory_optimization_float ar (daily_rows pid us iv) norm_ppf pid fv ltd sl hc oc =
     (case optimization_try_float ar norm_ppf (daily_rows pid us iv) pid fv ltd sl hc oc of
        Inl e \<Rightarrow> Inl (HTTPException 500 (Internal_optimization_error e))
      | Inr result \<Rightarrow> Inr result)"
  by (simp add: calculate_inventory_optimization_float_def get_product_data_daily_rows [OF assms])

lemmas eval_float_defs = calculate_float_daily_rows optimization_try_float_def resample_daily_rows
  current_inventory_daily_rows demand_variability_def ROLLING_WINDOW_DAYS_def
  pd_std_def mean_def power2_eq_square math_sqrt_def safety_stock_of_def
  suggestion_of_def py_int_def py_round2_def round_half_even_def ppf_sample_def

text \<open>The same call in the two arithmetics: the EOQ is 7 in doubles and 6 exactly.\<close>

lemma rounding_moves_the_eoq:
  "(case calculate_inventory_optimization_float binary64_arith
           (daily_rows ''P1'' [1, 3, 5] (Some 15)) ppf_sample ''P1''
           [6, 5, 5, 5, 5, 5, 5] 4 (95 / 100) 730 7 of
      Inl e \<Rightarrow> False
    | Inr p \<Rightarrow> economic_order_quantity p = 7 \<and> demand_during_lead_time p = 21)
   \<and> (case calculate_inventory_optimization_float exact
           (daily_rows ''P1'' [1, 3, 5] (Some 15)) ppf_sample ''P1''
           [6, 5, 5, 5, 5, 5, 5] 4 (95 / 100) 730 7 of
      Inl e \<Rightarrow> False
    | Inr p \<Rightarrow> economic_order_quantity p = 6 \<and> demand_during_lead_time p = 21)"
  by (simp add: eval_float_defs ddlt_example annual_demand_example eoq_example
      calculate_inventory_optimization_float_exact eval_defs)

text \<open>The demand during lead time of the forecast \<open>2 ^ 53\<close>, 1: \<open>2 ^ 53\<close> in doubles.\<close>

lemma rounding_moves_the_ddlt:
  "(case calculate_inventory_optimization_float binary64_arith
           (daily_rows ''P1'' [10] (Some 50)) ppf_sample ''P1''
           [9007199254740992, 1] 2 (95 / 100) 0 50 of
      Inl e \<Rightarrow> False
    | Inr p \<Rightarrow> demand_during_lead_time p = 9007199254740992)
   \<and> (case calculate_inventory_optimization_float exact
           (daily_rows ''P1'' [10] (Some 50)) ppf_sample ''P1''
           [9007199254740992, 1] 2 (95 / 100) 0 50 of
      Inl e \<Rightarrow> False
    | Inr p \<Rightarrow> demand_during_lead_time p = 9007199254740993)"
  by (simp add: eval_float_defs ddlt_float_def py_sum_def binary64_arith_def naive_sum_2_53
      eoq_float_def annual_demand_float_def
      calculate_inventory_optimization_float_exact eval_defs)

subsection \<open>Economic order quantity\<close>

text \<open>
  Claim C5. For every call of \<open>calculate_inventory_optimization\<close> that returns a policy,
  in the program's float arithmetic (any rounding, any summation): when the annual
  demand and the holding cost are positive and the ordering cost is not negative, the
  EOQ is the ceiling of the square root of
  \<open>2 * annualDemand * orderingCost / holdingCost\<close>, each product, the quotient and the
  root being the float ones, and the root is finite; otherwise the EOQ is 0. The annual
  demand is the float mean of the forecast times 365, and 0 for an empty forecast.
\<close>

theorem eoq_formula:
  assumes "calculate_inventory_optimization_float ar df norm_ppf pid fv ltd sl hc oc = Inr p"
  shows "(let annual_demand =
            (if fv = [] then Fin 0
             else fl_mul ar (fl_div ar (float_sum ar fv) (real (length fv))) (Fin 365))
      in if fgt0 annual_demand \<and> 0 < hc \<and> 0 \<le> oc
         then \<exists>r. fl_sqrt ar (fl_div ar (fl_mul ar (fl_mul ar (Fin 2) annual_demand) (Fin oc)) hc)
                    = Inr (Fin r) \<and>
                  economic_order_quantity p = \<lceil>r\<rceil>
         else economic_order_quantity p = 0)"
proof -
  let ?annual = "if fv = [] then Fin 0
                 else fl_mul ar (fl_div ar (float_sum ar fv) (real (length fv))) (Fin 365)"
  let ?root = "fl_sqrt ar (fl_div ar (fl_mul ar (fl_mul ar (Fin 2) ?annual) (Fin oc)) hc)"
  from calculate_float_InrD [OF assms] obtain phd
    where "optimization_try_float ar norm_ppf phd pid fv ltd sl hc oc = Inr p" by blast
  then have "eoq_float ar (fst (annual_demand_float ar fv)) hc oc = Inr (economic_order_quantity p)"
    using optimization_try_float_InrD by blast
  moreover have "fst (annual_demand_float ar fv) = ?annual"
    by (simp add: annual_demand_float_def py_sum_def Let_def)
  ultimately have e: "eoq_float ar ?annual hc oc = Inr (economic_order_quantity p)" by simp
  show ?thesis
  proof (cases "fgt0 ?annual \<and> 0 < hc \<and> 0 \<le> oc")
    case True
    then have "\<not> fle0 ?annual" by (cases ?annual) auto
    with True e obtain x where x: "?root = Inr x" "math_ceil x = Inr (economic_order_quantity p)"
      by (auto simp: eoq_float_def not_le not_less split: sum.splits)
    from math_ceil_InrD [OF x(2)] x(1) True show ?thesis
      unfolding Let_def by auto
  next
    case False
    have "economic_order_quantity p = 0"
    proof (cases "hc \<le> 0 \<or> oc < 0 \<or> fle0 ?annual")
      case True
      with e show ?thesis by (auto simp: eoq_float_def)
    next
      case no_guard: False
      with False have "?annual = NaN" by (cases ?annual) auto
      with no_guard e eoq_float_NaN [of hc oc ar] show ?thesis by simp
    qed
    with False show ?thesis unfolding Let_def by auto
  qed
qed

theorem eoq_formula_witness:
  "(case calculate_inventory_optimization_float binary64_arith
           (daily_rows ''P1'' [1, 3, 5] (Some 15)) ppf_sample ''P1''
           [6, 5, 5, 5, 5, 5, 5] 4 (95 / 100) 730 7 of
      Inl e \<Rightarrow> False
    | Inr p \<Rightarrow> economic_order_quantity p = 7)
   \<and> (case calculate_inventory_optimization_float exact
           (daily_rows ''P1'' [1, 3, 5] (Some 15)) ppf_sample ''P1''
           [6, 5, 5, 5, 5, 5, 5] 4 (95 / 100) 730 7 of
      Inl e \<Rightarrow> False
    | Inr p \<Rightarrow> economic_order_quantity p = 6)
   \<and> (case calculate_inventory_optimization_float binary64_arith
           (daily_rows ''P1'' [1, 3, 5] (Some 15)) ppf_sample ''P1''
           [6, 5, 5, 5, 5, 5, 5] 4 (95 / 100) 0 7 of
      Inl e \<Rightarrow> False
    | Inr p \<Rightarrow> economic_order_quantity p = 0)"
proof -
  let ?c = "\<lambda>ar hc. calculate_inventory_optimization_float ar
      (daily_rows ''P1'' [1, 3, 5] (Some 15)) ppf_sample ''P1''
      [6, 5, 5, 5, 5, 5, 5] 4 (95 / 100) hc 7"
  obtain p where p: "?c binary64_arith 730 = Inr p"
    by (simp add: eval_float_defs ddlt_example annual_demand_example eoq_example)
  obtain q where q: "?c exact 730 = Inr q"
    by (simp add: calculate_inventory_optimization_float_exact eval_defs)
  obtain r where r: "?c binary64_arith 0 = Inr r"
    by (simp add: eval_float_defs ddlt_example annual_demand_example eoq_float_def)
  have "economic_order_quantity p = 7"
  proof -
    from eoq_formula [OF p] obtain x :: real
      where x: "x * 1125899906842624 = 6755399441055745" "economic_order_quantity p = \<lceil>x\<rceil>"
      by (auto simp: binary64_arith_def naive_sum_example sqrt_example round_half_even_def
          binary64_normal [of 2] binary64_normal [of 10] binary64_normal [of 11]
          binary64_normal [of 14] binary64_normal [of 5])
    from x(1) have "real_of_int 7 - 1 < x" and "x \<le> real_of_int 7" by simp_all
    then have "\<lceil>x\<rceil> = 7" by (rule ceiling_unique)
    with x(2) show ?thesis by simp
  qed
  moreover have "economic_order_quantity q = 6"
    using eoq_formula [OF q] by (simp add: exact_def)
  moreover have "economic_order_quantity r = 0"
    using eoq_formula [OF r] by simp
  ultimately show ?thesis using p q r by simp
qed

subsection \<open>Demand during lead time\<close>

text \<open>
  Claim C6. For every forecast and every positive lead time, the demand during lead time
  of a returned policy is the ceiling of the sum, as \<^verbatim>\<open>sum\<close> computes it in floats, of the
  first \<open>min (length forecast) leadTimeDays\<close> forecast values, and that sum is finite;
  when the forecast is shorter than the lead time this is the ceiling of the sum of all
  of the forecast, with nothing added for the missing days.
\<close>

theorem ddlt_sums_available_forecast:
  assumes "calculate_inventory_optimization_float ar df norm_ppf pid fv ltd sl hc oc = Inr p"
    and "0 < ltd"
  shows "(\<exists>s. py_sum ar (take (min (length fv) (nat ltd)) fv) = Fin s \<and>
              demand_during_lead_time p = \<lceil>s\<rceil>) \<and>
         (int (length fv) < ltd \<longrightarrow>
            (\<exists>s. py_sum ar fv = Fin s \<and> demand_during_lead_time p = \<lceil>s\<rceil>))"
proof -
  from calculate_float_InrD [OF assms(1)] obtain phd
    where "optimization_try_float ar norm_ppf phd pid fv ltd sl hc oc = Inr p" by blast
  then have d: "ddlt_float ar fv ltd = Inr (demand_during_lead_time p)"
    using optimization_try_float_InrD by blast
  have e: "nat (min (int (length fv)) ltd) = min (length fv) (nat ltd)"
    using assms(2) by linarith
  from d have "math_ceil (py_sum ar (take (min (length fv) (nat ltd)) fv)) =
               Inr (demand_during_lead_time p)"
    unfolding ddlt_float_def Let_def e .
  from math_ceil_InrD [OF this]
  have a: "\<exists>s. py_sum ar (take (min (length fv) (nat ltd)) fv) = Fin s \<and>
               demand_during_lead_time p = \<lceil>s\<rceil>" .
  have b: "\<exists>s. py_sum ar fv = Fin s \<and> demand_during_lead_time p = \<lceil>s\<rceil>"
    if "int (length fv) < ltd"
  proof -
    from that have "min (length fv) (nat ltd) = length fv" by simp
    with a show ?thesis by simp
  qed
  from a b show ?thesis by blast
qed

theorem ddlt_sums_available_forecast_witness:
  "(case calculate_inventory_optimization_float exact (daily_rows ''P1'' [10] (Some 50))
           ppf_sample ''P1'' [3, 4, 5, 6, 7] 7 (95 / 100) (3 / 2) 0 of
      Inl e \<Rightarrow> False
    | Inr p \<Rightarrow> demand_during_lead_time p = 25)
   \<and> (case calculate_inventory_optimization_float exact (daily_rows ''P1'' [10] (Some 50))
           ppf_sample ''P1'' [3, 4, 5, 6, 7] 2 (95 / 100) (3 / 2) 0 of
      Inl e \<Rightarrow> False
    | Inr p \<Rightarrow> demand_during_lead_time p = 7)
   \<and> (case calculate_inventory_optimization_float binary64_arith
           (daily_rows ''P1'' [10] (Some 50)) ppf_sample ''P1''
           [9007199254740992, 1] 7 (95 / 100) 0 50 of
      Inl e \<Rightarrow> False
    | Inr p \<Rightarrow> demand_during_lead_time p = 9007199254740992)"
proof -
  let ?c = "\<lambda>ltd. calculate_inventory_optimization_float exact
      (daily_rows ''P1'' [10] (Some 50)) ppf_sample ''P1'' [3, 4, 5, 6, 7] ltd (95 / 100) (3 / 2) 0"
  obtain p where p: "?c 7 = Inr p"
    by (simp add: calculate_inventory_optimization_float_exact eval_defs)
  obtain q where q: "?c 2 = Inr q"
    by (simp add: calculate_inventory_optimization_float_exact eval_defs)
  obtain r where r: "calculate_inventory_optimization_float binary64_arith
      (daily_rows ''P1'' [10] (Some 50)) ppf_sample ''P1''
      [9007199254740992, 1] 7 (95 / 100) 0 50 = Inr r"
    by (simp add: eval_float_defs ddlt_float_def py_sum_def binary64_arith_def naive_sum_2_53
        eoq_float_def annual_demand_float_def)
  have l: "(0::int) < 7" "(0::int) < 2" by simp_all
  have "demand_during_lead_time p = 25"
    using ddlt_sums_available_forecast [OF p l(1)] by (simp add: py_sum_exact)
  moreover have "demand_during_lead_time q = 7"
    using ddlt_sums_available_forecast [OF q l(2)] by (simp add: py_sum_exact eval_nat_numeral)
  moreover have "demand_during_lead_time r = 9007199254740992"
    using ddlt_sums_available_forecast [OF r l(1)]
    by (simp add: py_sum_def binary64_arith_def naive_sum_2_53)
  ultimately show ?thesis using p q r by simp
qed

subsection \<open>The overstock threshold\<close>

text \<open>
  Claim C1, as amended. For every returned policy whose current inventory is above the
  reorder point, the overstock warning is emitted if and only if the current inventory
  is above \<open>reorderPoint + (if EOQ > 0 then EOQ else safetyStock)\<close>. That addend is
  \<open>max EOQ safetyStock\<close> except when \<open>0 < EOQ < safetyStock\<close>, where it is the EOQ.
\<close>

theorem overstock_threshold:
  assumes "calculate_inventory_optimization df norm_ppf pid fv ltd sl hc oc = Inr p"
    and "reorder_point p < current_inventory p"
  shows "(overstock_warning (suggestion p) \<longleftrightarrow>
            reorder_point p +
              (if 0 < economic_order_quantity p then economic_order_quantity p else safety_stock p)
            < current_inventory p) \<and>
         (if 0 < economic_order_quantity p then economic_order_quantity p else safety_stock p) =
           (if 0 < economic_order_quantity p \<and> economic_order_quantity p < safety_stock p
            then economic_order_quantity p
            else max (economic_order_quantity p) (safety_stock p))"
proof -
  from calculate_InrD [OF assms(1)] obtain phd
    where t: "optimization_try norm_ppf phd pid fv ltd sl hc oc = Inr p" by blast
  note f = optimization_try_InrD [OF t]
  from f have s: "suggestion p = suggestion_of (current_inventory p) (reorder_point p)
                    (safety_stock p) (economic_order_quantity p)" by blast
  from f have "0 \<le> safety_stock p" using safety_stock_of_nonneg by blast
  moreover from f have "0 \<le> economic_order_quantity p" by (simp add: eoq_of_nonneg)
  moreover have "overstock_warning (suggestion p) \<longleftrightarrow>
            reorder_point p +
              (if 0 < economic_order_quantity p then economic_order_quantity p else safety_stock p)
            < current_inventory p"
    unfolding s using assms(2) by (simp add: suggestion_of_def)
  ultimately show ?thesis by (auto simp: max_def)
qed

theorem overstock_threshold_witness:
  "(case calculate_inventory_optimization (daily_rows ''P1'' [1, 3, 5] (Some 20)) ppf_sample ''P1''
           [1, 1, 1, 1] 4 (95 / 100) 730 1 of
      Inl e \<Rightarrow> False
    | Inr p \<Rightarrow> reorder_point p < current_inventory p \<and> overstock_warning (suggestion p) \<and>
        reorder_point p + economic_order_quantity p < current_inventory p)"
proof -
  obtain p where p: "calculate_inventory_optimization (daily_rows ''P1'' [1, 3, 5] (Some 20))
      ppf_sample ''P1'' [1, 1, 1, 1] 4 (95 / 100) 730 1 = Inr p"
    and r: "reorder_point p < current_inventory p" "0 < economic_order_quantity p"
      "reorder_point p + economic_order_quantity p < current_inventory p"
    by (simp add: eval_defs)
  show ?thesis
    using overstock_threshold [OF p r(1)] p r by simp
qed

text \<open>
  Against C1 as stated: three days of sales 1, 3, 5 (standard deviation 2), lead time 4,
  service level 0.95, so the safety stock is 7; the EOQ is 1 and the reorder point 11.
  At an inventory of 15 the warning is emitted, and 15 is not above \<open>11 + max 1 7\<close>.
\<close>

theorem overstock_threshold_is_not_the_maximum:
  "(case calculate_inventory_optimization (daily_rows ''P1'' [1, 3, 5] (Some 15)) ppf_sample ''P1''
           [1, 1, 1, 1] 4 (95 / 100) 730 1 of
      Inl e \<Rightarrow> False
    | Inr p \<Rightarrow>
        current_inventory p = 15 \<and> reorder_point p = 11 \<and>
        economic_order_quantity p = 1 \<and> safety_stock p = 7 \<and>
        reorder_point p < current_inventory p \<and>
        overstock_warning (suggestion p) \<and>
        \<not> reorder_point p + max (economic_order_quantity p) (safety_stock p) < current_inventory p)"
  by (simp add: eval_defs)

subsection \<open>The constant-demand scenario\<close>

text \<open>
  Claim C3, as amended. With an annual demand of 3650 (a forecast whose mean is 10), an
  ordering cost of 50 and a holding cost of 1.5, the EOQ of a returned policy is the
  ceiling of \<open>sqrt (2 * 3650 * 50 / 1.5)\<close>, which is 494 (the square root is about 493.29).
\<close>

theorem eoq_constant_demand_scenario:
  assumes "calculate_inventory_optimization df norm_ppf pid fv ltd sl (3 / 2) 50 = Inr p"
    and "fv \<noteq> []"
    and "sum_list fv / real (length fv) * 365 = 3650"
  shows "economic_order_quantity p = \<lceil>sqrt (2 * 3650 * 50 / (3 / 2))\<rceil> \<and>
         economic_order_quantity p = 494"
proof -
  from calculate_InrD [OF assms(1)] obtain phd
    where "optimization_try norm_ppf phd pid fv ltd sl (3 / 2) 50 = Inr p" by blast
  then have "economic_order_quantity p = eoq_of (fst (annual_demand_of fv)) (3 / 2) 50"
    using optimization_try_InrD by blast
  moreover have "fst (annual_demand_of fv) = 3650"
    using assms(2,3) by (simp add: annual_demand_of_def)
  ultimately have "economic_order_quantity p = eoq_of 3650 (3 / 2) 50" by simp
  moreover have "eoq_of 3650 (3 / 2) 50 = \<lceil>sqrt (2 * 3650 * 50 / (3 / 2))\<rceil>"
    by (simp add: eoq_of_def)
  ultimately show ?thesis using eoq_of_scenario by simp
qed

lemma constant_demand_scenario:
  "calculate_inventory_optimization (daily_rows ''P1'' (replicate 100 10) (Some 100)) ppf_sample
     ''P1'' (replicate 30 10) 7 (95 / 100) (3 / 2) 50 =
   Inr \<lparr> product_id = ''P1'', current_inventory = 100, safety_stock = 0, reorder_point = 70,
         economic_order_quantity = 494, demand_during_lead_time = 70,
         suggestion = Maintain_current_stock,
         assumptions_used =
           \<lparr> lead_time_days = 7, service_level_percent = 95,
             holding_cost_per_unit_per_year = 3 / 2, ordering_cost_per_order = 50,
             demand_variability_method = ''90-Day Rolling Std Dev'',
             annual_demand_method = ''Forecasted Average'' \<rparr> \<rparr>"
proof -
  have dv: "demand_variability (replicate 100 10) = (Fin 0, ''90-Day Rolling Std Dev'')"
    by (simp add: demand_variability_def ROLLING_WINDOW_DAYS_def pd_std_def mean_def
        sum_list_replicate)
  have an: "annual_demand_of (replicate 30 10) = (3650, ''Forecasted Average'')"
    by (simp add: annual_demand_of_def sum_list_replicate)
  have dd: "ddlt_of (replicate 30 10) 7 = 70"
    by (simp add: ddlt_of_def sum_list_replicate)
  have ne: "replicate 100 (10::real) \<noteq> []" by simp
  show ?thesis
    by (simp add: calculate_daily_rows [OF ne] optimization_try_def resample_daily_rows dv an dd
        eoq_of_scenario safety_stock_of_zero_std math_sqrt_def
        current_inventory_daily_rows [OF ne] py_int_def suggestion_of_def py_round2_def
        round_half_even_def)
qed

theorem eoq_constant_demand_scenario_witness:
  "(case calculate_inventory_optimization (daily_rows ''P1'' (replicate 100 10) (Some 100))
           ppf_sample ''P1'' (replicate 30 10) 7 (95 / 100) (3 / 2) 50 of
      Inl e \<Rightarrow> False
    | Inr p \<Rightarrow> economic_order_quantity p = 494)"
proof -
  obtain p where p: "calculate_inventory_optimization (daily_rows ''P1'' (replicate 100 10) (Some 100))
           ppf_sample ''P1'' (replicate 30 10) 7 (95 / 100) (3 / 2) 50 = Inr p"
    using constant_demand_scenario by blast
  have "replicate 30 (10::real) \<noteq> []"
    and "sum_list (replicate 30 (10::real)) / real (length (replicate 30 (10::real))) * 365 = 3650"
    by (simp_all add: sum_list_replicate)
  from eoq_constant_demand_scenario [OF p this] p show ?thesis by simp
qed

text \<open>
  Against C3 as stated: the scenario of the specification (100 days of 10 units, a
  forecast of 30 days of 10 units, lead time 7, service level 0.95) gives safety stock 0,
  demand during lead time 70, reorder point 70, and an EOQ of 494, not 493.
\<close>

theorem eoq_constant_demand_scenario_is_not_493:
  "(case calculate_inventory_optimization (daily_rows ''P1'' (replicate 100 10) (Some 100))
           ppf_sample ''P1'' (replicate 30 10) 7 (95 / 100) (3 / 2) 50 of
      Inl e \<Rightarrow> False
    | Inr p \<Rightarrow>
        safety_stock p = 0 \<and> demand_during_lead_time p = 70 \<and> reorder_point p = 70 \<and>
        economic_order_quantity p = 494 \<and> economic_order_quantity p \<noteq> 493)"
  unfolding constant_demand_scenario by simp


subsection \<open>The policy invariant\<close>

text \<open>
  Claim C4, as amended. For every returned policy the reorder point is the demand during
  lead time plus the safety stock; the safety stock and the EOQ are non-negative
  integers; the demand during lead time and the reorder point are integers that are
  non-negative when no forecast value is negative (as for a forecast made by
  \<open>forecast_demand\<close>); the current inventory is the integer part of the latest recorded
  inventory level (0 when it is missing), so it is non-negative exactly when that level
  is missing or above -1.
\<close>

theorem policy_invariant:
  assumes "get_product_data df pid = Inr (phd, ts)"
    and "calculate_inventory_optimization df norm_ppf pid fv ltd sl hc oc = Inr p"
  shows "reorder_point p = demand_during_lead_time p + safety_stock p \<and>
         0 \<le> safety_stock p \<and> 0 \<le> economic_order_quantity p \<and>
         ((\<forall>v \<in> set fv. 0 \<le> v) \<longrightarrow> 0 \<le> demand_during_lead_time p \<and> 0 \<le> reorder_point p) \<and>
         current_inventory p =
            (case inventory_level (last phd) of None \<Rightarrow> 0 | Some v \<Rightarrow> py_int v) \<and>
         (0 \<le> current_inventory p \<longleftrightarrow>
            (case inventory_level (last phd) of None \<Rightarrow> True | Some v \<Rightarrow> - 1 < v))"
proof -
  from calculate_InrD [OF assms(2)] assms(1)
  have t: "optimization_try norm_ppf phd pid fv ltd sl hc oc = Inr p" by auto
  note f = optimization_try_InrD [OF t]
  have ne: "phd \<noteq> []" using get_product_data_InrD [OF assms(1)] by simp
  from f have ss: "0 \<le> safety_stock p" using safety_stock_of_nonneg by blast
  from f have eoq: "0 \<le> economic_order_quantity p" by (simp add: eoq_of_nonneg)
  from f have rop: "reorder_point p = demand_during_lead_time p + safety_stock p" by simp
  have dd: "0 \<le> demand_during_lead_time p" if "\<forall>v \<in> set fv. 0 \<le> v"
    using f ddlt_of_nonneg [OF that] by simp
  from f have "current_inventory p = current_inventory_of phd" by simp
  then have val: "current_inventory p =
            (case inventory_level (last phd) of None \<Rightarrow> 0 | Some v \<Rightarrow> py_int v)"
    using ne by (simp add: current_inventory_of_def)
  then have cur: "0 \<le> current_inventory p \<longleftrightarrow>
            (case inventory_level (last phd) of None \<Rightarrow> True | Some v \<Rightarrow> - 1 < v)"
    by (simp add: py_int_nonneg_iff split: option.splits)
  from rop ss eoq dd val cur show ?thesis by auto
qed

theorem policy_invariant_witness:
  "(case calculate_inventory_optimization (daily_rows ''P1'' [1, 3, 5] (Some 15)) ppf_sample ''P1''
           [1, 1, 1, 1] 4 (95 / 100) 730 1 of
      Inl e \<Rightarrow> False
    | Inr p \<Rightarrow>
        reorder_point p = demand_during_lead_time p + safety_stock p \<and>
        0 \<le> safety_stock p \<and> 0 \<le> economic_order_quantity p \<and>
        0 \<le> demand_during_lead_time p \<and> 0 \<le> reorder_point p \<and>
        current_inventory p = 15 \<and> 0 \<le> current_inventory p)"
proof -
  have ne: "[1, 3, 5 :: real] \<noteq> []" by simp
  note g = get_product_data_daily_rows [OF ne, of "''P1''" "Some 15"]
  obtain p where p: "calculate_inventory_optimization (daily_rows ''P1'' [1, 3, 5] (Some 15))
      ppf_sample ''P1'' [1, 1, 1, 1] 4 (95 / 100) 730 1 = Inr p"
    by (simp add: eval_defs)
  have fv: "\<forall>v \<in> set [1, 1, 1, 1 :: real]. 0 \<le> v" by simp
  have lv: "inventory_level (last (daily_rows ''P1'' [1, 3, 5] (Some 15))) = Some 15"
    by (rule last_daily_rows [OF ne])
  show ?thesis
    using policy_invariant [OF g p] fv lv p by (simp add: py_int_def)
qed

text \<open>
  Against C4 as stated: the latest row of the product records an inventory level of -5
  (a backlog), and the returned policy has the current inventory -5.
\<close>

theorem current_inventory_can_be_negative:
  "(case calculate_inventory_optimization (daily_rows ''P1'' [1, 3, 5] (Some (- 5))) ppf_sample
           ''P1'' [1, 1, 1, 1] 4 (95 / 100) 730 1 of
      Inl e \<Rightarrow> False
    | Inr p \<Rightarrow> current_inventory p = - 5 \<and> current_inventory p < 0)"
  by (simp add: eval_defs)

subsection \<open>Too little history\<close>

text \<open>
  Claim C9. When the product's daily series has fewer than two points, the estimate of
  the standard deviation is 0 and the method recorded is the one the code names
  \<^verbatim>\<open>N/A (Insufficient Data)\<close> (the last rung of the ladder, the specification's
  insufficient-data tag); the call returns a policy, and its safety stock is 0, for every
  service level and whatever \<^verbatim>\<open>norm.ppf\<close> returns there, the infinite z-scores of the
  end points included. (A product with no usable row at all has no series: there
  \<open>get_product_data\<close> raises.)
\<close>

theorem insufficient_history_no_safety_stock:
  assumes "get_product_data df pid = Inr (phd, ts)"
    and "length ts < 2"
    and "0 < ltd"
  shows "demand_variability ts = (Fin 0, ''N/A (Insufficient Data)'') \<and>
         (\<exists>p. calculate_inventory_optimization df norm_ppf pid fv ltd sl hc oc = Inr p \<and>
              safety_stock p = 0 \<and>
              demand_variability_method (assumptions_used p) = ''N/A (Insufficient Data)'')"
proof -
  have ts: "ts = resample_daily_sum phd" using get_product_data_InrD [OF assms(1)] by simp
  have dv: "demand_variability ts = (Fin 0, ''N/A (Insufficient Data)'')"
    using assms(2) by (simp add: demand_variability_def ROLLING_WINDOW_DAYS_def)
  then have "safety_stock_of (norm_ppf sl) (sqrt (real_of_int ltd))
               (fst (demand_variability (resample_daily_sum phd))) = Inr 0"
    unfolding ts by (simp add: safety_stock_of_zero_std)
  with assms(3) obtain p
    where t: "optimization_try norm_ppf phd pid fv ltd sl hc oc = Inr p" and s: "safety_stock p = 0"
    using optimization_try_succeeds [of ltd norm_ppf sl phd 0 pid fv hc oc] by auto
  have m: "demand_variability_method (assumptions_used p) = ''N/A (Insufficient Data)''"
    using optimization_try_InrD [OF t] dv ts by simp
  have "calculate_inventory_optimization df norm_ppf pid fv ltd sl hc oc = Inr p"
    by (simp add: calculate_inventory_optimization_def assms(1) t)
  with dv s m show ?thesis by blast
qed

theorem insufficient_history_no_safety_stock_witness:
  "(case calculate_inventory_optimization (daily_rows ''P1'' [10] (Some 50)) ppf_sample ''P1''
           [10, 10] 7 1 2 50 of
      Inl e \<Rightarrow> False
    | Inr p \<Rightarrow> safety_stock p = 0 \<and>
        demand_variability_method (assumptions_used p) = ''N/A (Insufficient Data)'')
   \<and> (case calculate_inventory_optimization (daily_rows ''P1'' [10] (Some 50)) ppf_sample ''P1''
           [10, 10] 7 0 2 50 of
      Inl e \<Rightarrow> False
    | Inr p \<Rightarrow> safety_stock p = 0 \<and>
        demand_variability_method (assumptions_used p) = ''N/A (Insufficient Data)'')
   \<and> ppf_sample 1 = PInf \<and> ppf_sample 0 = NInf"
proof -
  have ne: "[10 :: real] \<noteq> []" by simp
  note g = get_product_data_daily_rows [OF ne, of "''P1''" "Some 50"]
  have l: "length [10 :: real] < 2" and lt: "(0::int) < 7" by simp_all
  from insufficient_history_no_safety_stock [OF g l lt, of ppf_sample "[10, 10]" 1 2 50]
  obtain p where p: "calculate_inventory_optimization (daily_rows ''P1'' [10] (Some 50))
      ppf_sample ''P1'' [10, 10] 7 1 2 50 = Inr p" "safety_stock p = 0"
      "demand_variability_method (assumptions_used p) = ''N/A (Insufficient Data)''"
    by blast
  from insufficient_history_no_safety_stock [OF g l lt, of ppf_sample "[10, 10]" 0 2 50]
  obtain q where q: "calculate_inventory_optimization (daily_rows ''P1'' [10] (Some 50))
      ppf_sample ''P1'' [10, 10] 7 0 2 50 = Inr q" "safety_stock q = 0"
      "demand_variability_method (assumptions_used q) = ''N/A (Insufficient Data)''"
    by blast
  have "ppf_sample 1 = PInf" "ppf_sample 0 = NInf" by (simp_all add: ppf_sample_def)
  with p q show ?thesis by simp
qed


subsection \<open>Safety stock and the service level\<close>

text \<open>
  The safety stock does not fall when the z-score rises, as long as the larger z-score
  is not infinite: for a standard deviation \<open>d \<ge> 0\<close> and a square root \<open>s \<ge> 0\<close> of the
  lead time both computations return, and in order.
\<close>

lemma safety_stock_of_mono:
  assumes "fle z1 z2" and "z2 \<noteq> PInf" and "0 \<le> s" and "0 \<le> d"
  shows "\<exists>a b. safety_stock_of z1 s (Fin d) = Inr a \<and> safety_stock_of z2 s (Fin d) = Inr b \<and> a \<le> b"
proof (cases z2)
  case (Fin y)
  show ?thesis
  proof (cases z1)
    case (Fin x)
    with \<open>z2 = Fin y\<close> assms(1) have "x \<le> y" by simp
    then have "x * s * d \<le> y * s * d"
      using assms(3,4) by (simp add: mult_right_mono)
    then have "\<lceil>x * s * d\<rceil> \<le> \<lceil>y * s * d\<rceil>" by (rule ceiling_mono)
    moreover have "0 \<le> \<lceil>y * s * d\<rceil>" if "0 < y * s * d"
      using that by simp
    ultimately show ?thesis
      using Fin \<open>z2 = Fin y\<close> \<open>x * s * d \<le> y * s * d\<close>
      by (auto simp: safety_stock_of_def Let_def)
  next
    case NInf
    have "0 \<le> \<lceil>y * s * d\<rceil>" if "0 < y * s * d"
      using that by simp
    then show ?thesis
      using NInf \<open>z2 = Fin y\<close> assms(3,4) by (auto simp: safety_stock_of_def Let_def)
  next
    case PInf
    with \<open>z2 = Fin y\<close> assms(1) show ?thesis by simp
  next
    case NaN
    with assms(1) show ?thesis by simp
  qed
next
  case NInf
  with assms(1) have "z1 = NInf" by (cases z1) simp_all
  with NInf assms(3,4) show ?thesis by (auto simp: safety_stock_of_def Let_def)
next
  case PInf
  with assms(2) show ?thesis by simp
next
  case NaN
  with assms(1) show ?thesis by (cases z1) simp_all
qed

lemma pd_std_nonneg:
  assumes "pd_std xs = Fin d"
  shows "0 \<le> d"
proof -
  have "0 \<le> sum_list (map (\<lambda>x. (x - mean xs)\<^sup>2) xs)"
    by (rule sum_list_nonneg) auto
  then have "0 \<le> sum_list (map (\<lambda>x. (x - mean xs)\<^sup>2) xs) / real (length xs - 1)"
    by simp
  then have "0 \<le> sqrt (sum_list (map (\<lambda>x. (x - mean xs)\<^sup>2) xs) / real (length xs - 1))"
    by simp
  moreover from assms
  have "d = sqrt (sum_list (map (\<lambda>x. (x - mean xs)\<^sup>2) xs) / real (length xs - 1))"
    unfolding pd_std_def by (cases "length xs < 2") simp_all
  ultimately show ?thesis by simp
qed

lemma demand_variability_nonneg: "\<exists>d. fst (demand_variability xs) = Fin d \<and> 0 \<le> d"
proof -
  have "\<exists>d. (if isna (pd_std ys) then Fin 0 else pd_std ys) = Fin d \<and> 0 \<le> d" for ys
  proof (cases "pd_std ys")
    case (Fin d)
    with pd_std_nonneg [OF Fin] show ?thesis by simp
  qed (simp_all add: pd_std_def split: if_splits)
  then show ?thesis
    by (simp add: demand_variability_def)
qed

text \<open>
  So for a quantile function that is monotone on the unit interval and finite below 1,
  the safety stock of the returned policies is monotone in the service level on
  \<open>[0, 1)\<close>, and both calls return.
\<close>

lemma safety_stock_monotone_below_one:
  assumes mono: "\<And>a b. 0 \<le> a \<Longrightarrow> a \<le> b \<Longrightarrow> b < 1 \<Longrightarrow> fle (norm_ppf a) (norm_ppf b) \<and> norm_ppf b \<noteq> PInf"
    and g: "get_product_data df pid = Inr (phd, ts)"
    and lt: "0 \<le> ltd"
    and sl: "0 \<le> sl1" "sl1 \<le> sl2" "sl2 < 1"
  shows "\<exists>p1 p2. calculate_inventory_optimization df norm_ppf pid fv ltd sl1 hc oc = Inr p1 \<and>
                 calculate_inventory_optimization df norm_ppf pid fv ltd sl2 hc oc = Inr p2 \<and>
                 safety_stock p1 \<le> safety_stock p2"
proof -
  obtain sd m where dv: "demand_variability (resample_daily_sum phd) = (sd, m)"
    by (cases "demand_variability (resample_daily_sum phd)")
  from demand_variability_nonneg [of "resample_daily_sum phd"] dv
  obtain d where d: "sd = Fin d" "0 \<le> d" by auto
  from mono [OF sl] have "fle (norm_ppf sl1) (norm_ppf sl2)" "norm_ppf sl2 \<noteq> PInf" by simp_all
  from safety_stock_of_mono [OF this _ d(2), of "sqrt (real_of_int ltd)"] lt
  obtain a b where ab: "safety_stock_of (norm_ppf sl1) (sqrt (real_of_int ltd)) (Fin d) = Inr a"
      "safety_stock_of (norm_ppf sl2) (sqrt (real_of_int ltd)) (Fin d) = Inr b" "a \<le> b"
    by auto
  from optimization_try_succeeds [OF lt, of norm_ppf sl1 phd a pid fv hc oc] ab(1) dv d
  obtain p1 where p1: "optimization_try norm_ppf phd pid fv ltd sl1 hc oc = Inr p1"
      "safety_stock p1 = a" by auto
  from optimization_try_succeeds [OF lt, of norm_ppf sl2 phd b pid fv hc oc] ab(2) dv d
  obtain p2 where p2: "optimization_try norm_ppf phd pid fv ltd sl2 hc oc = Inr p2"
      "safety_stock p2 = b" by auto
  from p1 p2 ab(3) g show ?thesis
    by (auto simp: calculate_inventory_optimization_def)
qed

text \<open>
  At an infinite z-score and a positive standard deviation \<^verbatim>\<open>math.ceil\<close> raises
  \<^verbatim>\<open>OverflowError\<close>, and the call ends in a 500.
\<close>

lemma infinite_z_score_overflows:
  assumes "norm_ppf sl = PInf"
    and "get_product_data df pid = Inr (phd, ts)"
    and "demand_variability ts = (Fin d, m)" and "0 < d"
    and "0 < ltd"
  shows "calculate_inventory_optimization df norm_ppf pid fv ltd sl hc oc =
           Inl (HTTPException 500 (Internal_optimization_error OverflowError))"
proof -
  have ts: "ts = resample_daily_sum phd" using get_product_data_InrD [OF assms(2)] by simp
  have "0 < sqrt (real_of_int ltd)" using assms(5) by simp
  then have "safety_stock_of PInf (sqrt (real_of_int ltd)) (Fin d) = Inl OverflowError"
    using assms(4) by (simp add: safety_stock_of_def)
  then have "optimization_try norm_ppf phd pid fv ltd sl hc oc = Inl OverflowError"
    using assms(1,3,5) ts by (simp add: optimization_try_def math_sqrt_def)
  then show ?thesis
    by (simp add: calculate_inventory_optimization_def assms(2))
qed

text \<open>
  Claim C7, at the input where the code leaves it: three days of sales 1, 3, 5 (standard
  deviation 2), lead time 4. At the service level 0.95 the call returns a policy with the
  safety stock 7; at the service level 1, which the endpoint accepts, the z-score is
  infinite and the call raises instead of returning a safety stock.
\<close>

theorem service_level_one_overflows:
  "calculate_inventory_optimization (daily_rows ''P1'' [1, 3, 5] (Some 15)) ppf_sample ''P1''
     [1, 1, 1, 1] 4 1 730 1 =
   Inl (HTTPException 500 (Internal_optimization_error OverflowError))
   \<and> (case calculate_inventory_optimization (daily_rows ''P1'' [1, 3, 5] (Some 15)) ppf_sample
            ''P1'' [1, 1, 1, 1] 4 (95 / 100) 730 1 of
        Inl e \<Rightarrow> False
      | Inr p \<Rightarrow> safety_stock p = 7)"
  by (simp add: eval_defs)


subsection \<open>Validation in forecast\_demand\<close>

text \<open>
  Claim C2, as amended. With \<open>forecast_days \<le> 0\<close> the call fails with a 400 for both
  model variants (and any other model type): the length of the series is checked first,
  so a series shorter than the minimum for the variant gives the insufficient-data
  error whatever the horizon, and only a series that is long enough gives the
  invalid-parameter error \<^verbatim>\<open>Forecast days must be a positive integer.\<close>
\<close>

theorem forecast_days_not_positive:
  assumes "forecast_days \<le> 0"
  shows "forecast_demand ARIMA ExponentialSmoothing ts_data model_type forecast_days seasonal_periods =
     (let min_data_points =
            max 10 (if model_type = ''ExponentialSmoothing'' then 2 * seasonal_periods else 10)
      in if int (length ts_data) < min_data_points
         then Inl (HTTPException 400
                (Insufficient_historical_data (length ts_data) model_type min_data_points))
         else Inl (HTTPException 400 Forecast_days_must_be_positive))"
  using assms by (simp add: forecast_demand_def Let_def)

theorem forecast_days_not_positive_witness:
  "forecast_demand ramp_fit failing_fit (replicate 10 1) ''ARIMA'' 0 7 =
     Inl (HTTPException 400 Forecast_days_must_be_positive)
   \<and> forecast_demand ramp_fit failing_fit (replicate 14 1) ''ExponentialSmoothing'' (- 1) 7 =
     Inl (HTTPException 400 Forecast_days_must_be_positive)"
proof -
  have "(0::int) \<le> 0" and "(- 1 :: int) \<le> 0" by simp_all
  from forecast_days_not_positive [OF this(1), of ramp_fit failing_fit "replicate 10 1" "''ARIMA''" 7]
    forecast_days_not_positive [OF this(2), of ramp_fit failing_fit "replicate 14 1"
      "''ExponentialSmoothing''" 7]
  show ?thesis by simp
qed

text \<open>
  Against C2 as stated: a series of three points and a horizon of 0 give the
  insufficient-data error, for both variants, not the invalid-parameter error.
\<close>

theorem short_series_masks_bad_horizon:
  "forecast_demand ramp_fit failing_fit [1, 2, 3] ''ARIMA'' 0 7 =
     Inl (HTTPException 400 (Insufficient_historical_data 3 ''ARIMA'' 10))
   \<and> forecast_demand ramp_fit failing_fit [1, 2, 3] ''ExponentialSmoothing'' 0 7 =
     Inl (HTTPException 400 (Insufficient_historical_data 3 ''ExponentialSmoothing'' 14))
   \<and> forecast_demand ramp_fit failing_fit [1, 2, 3] ''ARIMA'' 0 7 \<noteq>
     Inl (HTTPException 400 Forecast_days_must_be_positive)"
  by (simp add: forecast_demand_def)

subsection \<open>The shape of a forecast\<close>

lemma round_half_even_int: "round_half_even x \<in> \<int>"
  by (simp add: round_half_even_def Let_def)

lemma round_half_even_nonneg:
  assumes "0 \<le> x"
  shows "0 \<le> round_half_even x"
proof -
  from assms have "0 \<le> \<lfloor>x\<rfloor>" by simp
  then show ?thesis by (simp add: round_half_even_def Let_def)
qed

lemma clip_round_shape:
  "length (clip_round xs) = length xs \<and> (\<forall>v \<in> set (clip_round xs). 0 \<le> v \<and> v \<in> \<int>)"
  by (auto simp: clip_round_def round_half_even_int intro!: round_half_even_nonneg)

text \<open>
  Claim C8. For a series of at least 10 points and a positive horizon, the call with
  the autoregressive model returns a forecast exactly when the fit does not raise; the
  forecast is then, in order, each projected value clipped at 0 and rounded: it has
  exactly \<open>horizon\<close> values, each a non-negative integer.
\<close>

theorem arima_forecast_shape:
  assumes "10 \<le> length ts_data" and "0 < forecast_days"
  shows "(forecast_demand ARIMA ExponentialSmoothing ts_data ''ARIMA'' forecast_days seasonal_periods
            = Inr forecast \<longleftrightarrow>
          (\<exists>model_fit. ARIMA ts_data = Fitted model_fit \<and>
             forecast = map (\<lambda>i. round_half_even (max 0 (model_fit i))) [0..<nat forecast_days])) \<and>
         (forecast_demand ARIMA ExponentialSmoothing ts_data ''ARIMA'' forecast_days seasonal_periods
            = Inr forecast \<longrightarrow>
          length forecast = nat forecast_days \<and> (\<forall>v \<in> set forecast. 0 \<le> v \<and> v \<in> \<int>))"
proof -
  let ?call = "forecast_demand ARIMA ExponentialSmoothing ts_data ''ARIMA'' forecast_days
                 seasonal_periods"
  have clip: "clip_round (project m forecast_days) =
              map (\<lambda>i. round_half_even (max 0 (m i))) [0..<nat forecast_days]" for m
    by (simp add: clip_round_def project_def max_def not_less)
  have call: "?call = (case ARIMA ts_data of
                         Raises e \<Rightarrow> Inl (HTTPException 500 (Internal_forecasting_error ''ARIMA''))
                       | Fitted m \<Rightarrow> Inr (clip_round (project m forecast_days)))"
    using assms by (simp add: forecast_demand_def forecast_try_def split: fit_outcome.splits)
  have iff: "?call = Inr forecast \<longleftrightarrow>
          (\<exists>model_fit. ARIMA ts_data = Fitted model_fit \<and>
             forecast = map (\<lambda>i. round_half_even (max 0 (model_fit i))) [0..<nat forecast_days])"
    unfolding call by (cases "ARIMA ts_data") (auto simp: clip)
  have shape: "length forecast = nat forecast_days \<and> (\<forall>v \<in> set forecast. 0 \<le> v \<and> v \<in> \<int>)"
    if "?call = Inr forecast"
  proof -
    from that obtain m where "forecast = clip_round (project m forecast_days)"
      unfolding call by (cases "ARIMA ts_data") auto
    then show ?thesis
      using clip_round_shape [of "project m forecast_days"] by (simp add: project_def)
  qed
  from iff shape show ?thesis by blast
qed

theorem arima_forecast_shape_witness:
  "forecast_demand ramp_fit failing_fit (replicate 10 1) ''ARIMA'' 5 7 = Inr [0, 0, 0, 2, 2]
   \<and> length [0, 0, 0, 2, 2 :: real] = nat 5"
proof -
  have l: "10 \<le> length (replicate 10 (1::real))" and d: "(0::int) < 5" by simp_all
  have "map (\<lambda>i. round_half_even (max 0 (real i - 3 / 2))) [0..<nat 5] = [0, 0, 0, 2, 2]"
    by (simp add: round_half_even_def eval_nat_numeral)
  then have "\<exists>model_fit. ramp_fit (replicate 10 1) = Fitted model_fit \<and>
      [0, 0, 0, 2, 2] = map (\<lambda>i. round_half_even (max 0 (model_fit i))) [0..<nat 5]"
    by (simp add: ramp_fit_def)
  with arima_forecast_shape [OF l d, of ramp_fit failing_fit 7 "[0, 0, 0, 2, 2]"]
  show ?thesis by simp
qed

subsection \<open>Errors raised inside the try block\<close>

text \<open>
  Claim C10, as amended. For every series of at least 10 points, every positive horizon
  and every model type other than \<^verbatim>\<open>ARIMA\<close> and \<^verbatim>\<open>ExponentialSmoothing\<close>, the 400 that
  the try block raises for the unknown model type is caught by the function's own
  handler and the call fails with the 500; likewise, for a series that is long enough
  and a positive horizon, the 400 raised for a \<^verbatim>\<open>ValueError\<close> of the exponential smoothing
  fit ends as the 500. (A shorter series or a horizon that is not positive fails before
  the try block, with a 400.)
\<close>

theorem errors_in_try_block_become_500:
  assumes "10 \<le> length ts_data" and "0 < forecast_days"
  shows "(model_type \<noteq> ''ARIMA'' \<and> model_type \<noteq> ''ExponentialSmoothing'' \<longrightarrow>
            forecast_try ARIMA ExponentialSmoothing ts_data model_type forecast_days seasonal_periods
              = Inl (HttpExc (HTTPException 400 (Invalid_model_type model_type))) \<and>
            forecast_demand ARIMA ExponentialSmoothing ts_data model_type forecast_days seasonal_periods
              = Inl (HTTPException 500 (Internal_forecasting_error model_type))) \<and>
         (2 * seasonal_periods \<le> int (length ts_data) \<and>
          ExponentialSmoothing ts_data seasonal_periods = Raises ValueError \<longrightarrow>
            forecast_try ARIMA ExponentialSmoothing ts_data ''ExponentialSmoothing'' forecast_days
                seasonal_periods
              = Inl (HttpExc (HTTPException 400
                       (Could_not_fit_exponential_smoothing seasonal_periods ValueError))) \<and>
            forecast_demand ARIMA ExponentialSmoothing ts_data ''ExponentialSmoothing'' forecast_days
                seasonal_periods
              = Inl (HTTPException 500 (Internal_forecasting_error ''ExponentialSmoothing'')))"
proof -
  have unknown: "forecast_try ARIMA ExponentialSmoothing ts_data model_type forecast_days
        seasonal_periods = Inl (HttpExc (HTTPException 400 (Invalid_model_type model_type)))"
    if "model_type \<noteq> ''ARIMA''" "model_type \<noteq> ''ExponentialSmoothing''"
    using that by (simp add: forecast_try_def)
  have smoothing: "forecast_try ARIMA ExponentialSmoothing ts_data ''ExponentialSmoothing''
        forecast_days seasonal_periods =
        Inl (HttpExc (HTTPException 400
               (Could_not_fit_exponential_smoothing seasonal_periods ValueError)))"
    if "ExponentialSmoothing ts_data seasonal_periods = Raises ValueError"
    using that by (simp add: forecast_try_def)
  have long_enough: "\<not> int (length ts_data) < max 10 (2 * seasonal_periods)"
    if "2 * seasonal_periods \<le> int (length ts_data)"
    using that assms(1) by simp
  show ?thesis
    using assms unknown smoothing long_enough
    by (auto simp: forecast_demand_def Let_def)
qed

theorem errors_in_try_block_become_500_witness:
  "forecast_demand ramp_fit failing_fit (replicate 14 1) ''Prophet'' 30 7 =
     Inl (HTTPException 500 (Internal_forecasting_error ''Prophet''))
   \<and> forecast_demand ramp_fit failing_fit (replicate 14 1) ''ExponentialSmoothing'' 30 7 =
     Inl (HTTPException 500 (Internal_forecasting_error ''ExponentialSmoothing''))"
proof -
  have l: "10 \<le> length (replicate 14 (1::real))" and d: "(0::int) < 30" by simp_all
  from errors_in_try_block_become_500 [OF l d, of "''Prophet''" ramp_fit failing_fit 7]
  show ?thesis by (simp add: failing_fit_def)
qed

text \<open>
  Against C10 as stated: with an unknown model type, a horizon of 0 gives the
  invalid-parameter 400 and a series of three points gives the insufficient-data 400;
  neither is the 500.
\<close>

theorem unknown_model_type_can_fail_with_400:
  "forecast_demand ramp_fit failing_fit (replicate 10 1) ''Prophet'' 0 7 =
     Inl (HTTPException 400 Forecast_days_must_be_positive)
   \<and> forecast_demand ramp_fit failing_fit [1, 2, 3] ''Prophet'' 30 7 =
     Inl (HTTPException 400 (Insufficient_historical_data 3 ''Prophet'' 10))"
  by (simp add: forecast_demand_def)

end
